theory Spec2Isabelle
  imports Complex_Main
begin

section \<open>JavaScript values\<close>

text \<open>
  A JavaScript string is a sequence of UTF-16 code units; the model keeps the code units as
  natural numbers, so that the currency symbols of the sources (for instance the euro sign,
  code unit 8364) are single characters as they are in the program. ASCII literals are written
  with \<open>js\<close>.
\<close>

type_synonym jsstring = "nat list"

definition js :: "string \<Rightarrow> jsstring" where
  "js s = map of_char s"

text \<open>
  A JavaScript number is modelled by an exact real, or one of the three special values of the
  IEEE format that the guards of the program test for. Rounding of finite results is not
  modelled, and neither is the sign of zero.
\<close>

datatype jsnum = Fin real | PInf | NInf | NaN

fun isNaN :: "jsnum \<Rightarrow> bool" where
  "isNaN NaN = True"
| "isNaN _ = False"

fun isFinite :: "jsnum \<Rightarrow> bool" where
  "isFinite (Fin _) = True"
| "isFinite _ = False"

text \<open>\<open>ToBoolean\<close> on a number: zero and NaN are falsy.\<close>

fun truthy :: "jsnum \<Rightarrow> bool" where
  "truthy (Fin x) = (x \<noteq> 0)"
| "truthy NaN = False"
| "truthy _ = True"

fun jsneg :: "jsnum \<Rightarrow> jsnum" where
  "jsneg (Fin x) = Fin (- x)"
| "jsneg PInf = NInf"
| "jsneg NInf = PInf"
| "jsneg NaN = NaN"

fun jsmul :: "jsnum \<Rightarrow> jsnum \<Rightarrow> jsnum" where
  "jsmul NaN _ = NaN"
| "jsmul _ NaN = NaN"
| "jsmul (Fin x) (Fin y) = Fin (x * y)"
| "jsmul (Fin x) PInf = (if x = 0 then NaN else if 0 < x then PInf else NInf)"
| "jsmul (Fin x) NInf = (if x = 0 then NaN else if 0 < x then NInf else PInf)"
| "jsmul PInf (Fin y) = (if y = 0 then NaN else if 0 < y then PInf else NInf)"
| "jsmul NInf (Fin y) = (if y = 0 then NaN else if 0 < y then NInf else PInf)"
| "jsmul PInf PInf = PInf"
| "jsmul PInf NInf = NInf"
| "jsmul NInf PInf = NInf"
| "jsmul NInf NInf = PInf"

fun jsdiv :: "jsnum \<Rightarrow> jsnum \<Rightarrow> jsnum" where
  "jsdiv NaN _ = NaN"
| "jsdiv _ NaN = NaN"
| "jsdiv (Fin x) (Fin y) =
     (if y \<noteq> 0 then Fin (x / y) else if x = 0 then NaN else if 0 < x then PInf else NInf)"
| "jsdiv (Fin x) PInf = Fin 0"
| "jsdiv (Fin x) NInf = Fin 0"
| "jsdiv PInf (Fin y) = (if 0 \<le> y then PInf else NInf)"
| "jsdiv NInf (Fin y) = (if 0 \<le> y then NInf else PInf)"
| "jsdiv PInf PInf = NaN"
| "jsdiv PInf NInf = NaN"
| "jsdiv NInf PInf = NaN"
| "jsdiv NInf NInf = NaN"

section \<open>Strings\<close>

text \<open>The characters \<open>\d\<close>, \<open>\s\<close> and \<open>\w\<close> of the ECMAScript pattern language.\<close>

definition isDigitC :: "nat \<Rightarrow> bool" where
  "isDigitC c = (48 \<le> c \<and> c \<le> 57)"

definition isSpaceC :: "nat \<Rightarrow> bool" where
  "isSpaceC c = ((9 \<le> c \<and> c \<le> 13) \<or> c = 32 \<or> c = 160 \<or> c = 5760 \<or> (8192 \<le> c \<and> c \<le> 8202)
     \<or> c = 8232 \<or> c = 8233 \<or> c = 8239 \<or> c = 8287 \<or> c = 12288 \<or> c = 65279)"

definition isWordC :: "nat \<Rightarrow> bool" where
  "isWordC c = ((97 \<le> c \<and> c \<le> 122) \<or> (65 \<le> c \<and> c \<le> 90) \<or> isDigitC c \<or> c = 95)"

text \<open>
  Case mapping. The letters of ASCII are mapped, the two letters outside ASCII that occur in
  the patterns of the program (U+0142 and U+010D, in the symbols of the zloty and the koruna),
  and the two code units outside ASCII whose lower case contains an ASCII letter (U+0130 and
  the Kelvin sign U+212A); every other code unit is left as it is. The needles and patterns
  that the program applies to lower-cased or case-insensitive text consist of these letters
  and of caseless symbols, for which this mapping decides the same tests as the full Unicode
  one.
\<close>

definition upperC :: "nat \<Rightarrow> nat" where
  "upperC c = (if 97 \<le> c \<and> c \<le> 122 then c - 32
               else if c = 322 then 321 else if c = 269 then 268 else c)"

definition lowerC :: "nat \<Rightarrow> nat list" where
  "lowerC c = (if 65 \<le> c \<and> c \<le> 90 then [c + 32]
               else if c = 321 then [322] else if c = 268 then [269]
               else if c = 304 then [105, 775] else if c = 8490 then [107] else [c])"

definition toUpperCase :: "jsstring \<Rightarrow> jsstring" where
  "toUpperCase s = map upperC s"

definition toLowerCase :: "jsstring \<Rightarrow> jsstring" where
  "toLowerCase s = concat (map lowerC s)"

fun startsWith :: "jsstring \<Rightarrow> jsstring \<Rightarrow> bool" where
  "startsWith s [] = True"
| "startsWith [] (p # ps) = False"
| "startsWith (x # xs) (p # ps) = (x = p \<and> startsWith xs ps)"

fun includesStr :: "jsstring \<Rightarrow> jsstring \<Rightarrow> bool" where
  "includesStr [] sub = (sub = [])"
| "includesStr (x # xs) sub = (startsWith (x # xs) sub \<or> includesStr xs sub)"

definition trim :: "jsstring \<Rightarrow> jsstring" where
  "trim s = rev (dropWhile isSpaceC (rev (dropWhile isSpaceC s)))"

text \<open>\<open>lastIndexOf\<close> for a single character; \<open>None\<close> is the result \<open>-1\<close>.\<close>

fun lastIndexOf :: "jsstring \<Rightarrow> nat \<Rightarrow> nat option" where
  "lastIndexOf [] ch = None"
| "lastIndexOf (x # xs) ch =
     (case lastIndexOf xs ch of Some i \<Rightarrow> Some (Suc i)
      | None \<Rightarrow> if x = ch then Some 0 else None)"

section \<open>Regular expressions\<close>

text \<open>
  The patterns of the program are kept as terms and run by one backtracking matcher that
  follows the ECMAScript semantics: alternatives are tried from the left, quantifiers are
  greedy, an iteration of \<open>*\<close> that consumes nothing is rejected, and a search starts at
  the leftmost position that admits a match. The matcher returns every way to match in the
  order in which a backtracking engine would find them; the head of the list is the match that
  JavaScript reports. A position is the reversed text before it and the text after it.
\<close>

datatype citem = CC nat | CR nat nat | CDigit | CSpace | CWord

fun citem_has :: "citem \<Rightarrow> nat \<Rightarrow> bool" where
  "citem_has (CC x) c = (c = x)"
| "citem_has (CR lo hi) c = (lo \<le> c \<and> c \<le> hi)"
| "citem_has CDigit c = isDigitC c"
| "citem_has CSpace c = isSpaceC c"
| "citem_has CWord c = isWordC c"

definition lowerOne :: "nat \<Rightarrow> nat" where
  "lowerOne c = (if 65 \<le> c \<and> c \<le> 90 then c + 32
                 else if c = 321 then 322 else if c = 268 then 269 else c)"

text \<open>With the flag \<open>i\<close> a character matches when one of its two cases does.\<close>

definition class_has :: "bool \<Rightarrow> citem list \<Rightarrow> nat \<Rightarrow> bool" where
  "class_has ci items c =
     (if ci then list_ex (\<lambda>i. citem_has i c \<or> citem_has i (upperC c) \<or> citem_has i (lowerOne c)) items
      else list_ex (\<lambda>i. citem_has i c) items)"

datatype regex =
    Eps | Chr nat | Set "citem list" | NSet "citem list"
  | Seq regex regex | Alt regex regex | Star regex | Grp nat regex
  | Bol | Eol | WordB | NWordB | Ahead regex | NAhead regex

type_synonym caps = "(nat \<times> jsstring) list"
type_synonym mstate = "jsstring \<times> jsstring \<times> caps"

definition atWordB :: "jsstring \<Rightarrow> jsstring \<Rightarrow> bool" where
  "atWordB b r = ((case b of [] \<Rightarrow> False | x # _ \<Rightarrow> isWordC x)
                  \<noteq> (case r of [] \<Rightarrow> False | y # _ \<Rightarrow> isWordC y))"

fun rm :: "bool \<Rightarrow> regex \<Rightarrow> jsstring \<Rightarrow> jsstring \<Rightarrow> caps \<Rightarrow> mstate list" where
  "rm ci Eps b r c = [(b, r, c)]"
| "rm ci (Chr x) b r c =
     (case r of [] \<Rightarrow> []
      | y # ys \<Rightarrow> if (if ci then upperC y = upperC x else y = x) then [(y # b, ys, c)] else [])"
| "rm ci (Set items) b r c =
     (case r of [] \<Rightarrow> [] | y # ys \<Rightarrow> if class_has ci items y then [(y # b, ys, c)] else [])"
| "rm ci (NSet items) b r c =
     (case r of [] \<Rightarrow> [] | y # ys \<Rightarrow> if class_has ci items y then [] else [(y # b, ys, c)])"
| "rm ci (Seq p q) b r c = concat (map (\<lambda>(b', r', c'). rm ci q b' r' c') (rm ci p b r c))"
| "rm ci (Alt p q) b r c = rm ci p b r c @ rm ci q b r c"
| "rm ci (Star p) b r c =
     concat (map (\<lambda>(b', r', c'). if length r' < length r then rm ci (Star p) b' r' c' else [])
                 (rm ci p b r c)) @ [(b, r, c)]"
| "rm ci (Grp n p) b r c =
     map (\<lambda>(b', r', c'). (b', r', (n, take (length r - length r') r) # c')) (rm ci p b r c)"
| "rm ci Bol b r c = (if b = [] then [(b, r, c)] else [])"
| "rm ci Eol b r c = (if r = [] then [(b, r, c)] else [])"
| "rm ci WordB b r c = (if atWordB b r then [(b, r, c)] else [])"
| "rm ci NWordB b r c = (if atWordB b r then [] else [(b, r, c)])"
| "rm ci (Ahead p) b r c = (case rm ci p b r c of [] \<Rightarrow> [] | (b', r', c') # _ \<Rightarrow> [(b, r, c')])"
| "rm ci (NAhead p) b r c = (case rm ci p b r c of [] \<Rightarrow> [(b, r, c)] | _ # _ \<Rightarrow> [])"

text \<open>
  The leftmost match from a position on: the reversed text before the match, the matched
  text, the text after it and the captures.
\<close>

fun rsearch :: "bool \<Rightarrow> regex \<Rightarrow> jsstring \<Rightarrow> jsstring
                  \<Rightarrow> (jsstring \<times> jsstring \<times> jsstring \<times> caps) option" where
  "rsearch ci re b [] =
     (case rm ci re b [] [] of [] \<Rightarrow> None | (b', r', c') # _ \<Rightarrow> Some (b, [], r', c'))"
| "rsearch ci re b (x # xs) =
     (case rm ci re b (x # xs) [] of
        [] \<Rightarrow> rsearch ci re (x # b) xs
      | (b', r', c') # _ \<Rightarrow> Some (b, take (length (x # xs) - length r') (x # xs), r', c'))"

text \<open>\<open>re.test(s)\<close>\<close>

definition test :: "bool \<Rightarrow> regex \<Rightarrow> jsstring \<Rightarrow> bool" where
  "test ci re s = (rsearch ci re [] s \<noteq> None)"

text \<open>
  \<open>s.match(re)\<close> for a pattern without the flag \<open>g\<close>: the matched text and the
  captures, where a group that took no part in the match is \<open>undefined\<close>.
\<close>

definition match :: "bool \<Rightarrow> regex \<Rightarrow> jsstring \<Rightarrow> (jsstring \<times> caps) option" where
  "match ci re s = (case rsearch ci re [] s of None \<Rightarrow> None | Some (b, m, r, c) \<Rightarrow> Some (m, c))"

definition grp :: "caps \<Rightarrow> nat \<Rightarrow> jsstring option" where
  "grp c n = map_of c n"

text \<open>\<open>s.replace(re, rep)\<close> with a constant replacement, without and with the flag \<open>g\<close>.\<close>

definition replaceFirst :: "bool \<Rightarrow> regex \<Rightarrow> jsstring \<Rightarrow> jsstring \<Rightarrow> jsstring" where
  "replaceFirst ci re rep s =
     (case rsearch ci re [] s of None \<Rightarrow> s | Some (b, m, r, c) \<Rightarrow> rev b @ rep @ r)"

fun greplace :: "bool \<Rightarrow> regex \<Rightarrow> jsstring \<Rightarrow> jsstring \<Rightarrow> jsstring \<Rightarrow> jsstring" where
  "greplace ci re rep b r =
     (case rm ci re b r [] of
        (b', r', c') # _ \<Rightarrow>
          if length r' < length r then rep @ greplace ci re rep b' r'
          else (case r of [] \<Rightarrow> rep | x # xs \<Rightarrow> rep @ x # greplace ci re rep (x # b) xs)
      | [] \<Rightarrow> (case r of [] \<Rightarrow> [] | x # xs \<Rightarrow> x # greplace ci re rep (x # b) xs))"

definition replaceAll :: "bool \<Rightarrow> regex \<Rightarrow> jsstring \<Rightarrow> jsstring \<Rightarrow> jsstring" where
  "replaceAll ci re rep s = greplace ci re rep [] s"

text \<open>Replacing the first occurrence of one character, as \<open>s.replace(',', '.')\<close> does.\<close>

fun replaceChar :: "nat \<Rightarrow> nat \<Rightarrow> jsstring \<Rightarrow> jsstring" where
  "replaceChar a b [] = []"
| "replaceChar a b (x # xs) = (if x = a then b # xs else x # replaceChar a b xs)"

text \<open>Ways to write patterns.\<close>

definition lits :: "string \<Rightarrow> regex" where
  "lits s = foldr (\<lambda>ch re. Seq (Chr (of_char ch)) re) s Eps"

definition seqs :: "regex list \<Rightarrow> regex" where
  "seqs rs = foldr Seq rs Eps"

definition alts :: "regex list \<Rightarrow> regex" where
  "alts rs = foldr Alt (butlast rs) (last rs)"

definition Opt :: "regex \<Rightarrow> regex" where
  "Opt p = Alt p Eps"

definition Plus :: "regex \<Rightarrow> regex" where
  "Plus p = Seq p (Star p)"

fun upto_rep :: "nat \<Rightarrow> regex \<Rightarrow> regex" where
  "upto_rep n p = (if n = 0 then Eps else Opt (Seq p (upto_rep (n - 1) p)))"

fun rep :: "nat \<Rightarrow> nat \<Rightarrow> regex \<Rightarrow> regex" where
  "rep lo hi p = (if lo = 0 then upto_rep hi p else Seq p (rep (lo - 1) (hi - 1) p))"

declare upto_rep.simps [simp del] rep.simps [simp del] greplace.simps [simp del]

definition digit :: regex where
  "digit = Set [CDigit]"

definition space :: regex where
  "space = Set [CSpace]"

text \<open>The class of currency symbols that the patterns of content.js share.\<close>

definition symbols14 :: "citem list" where
  "symbols14 = [CC 36, CC 8364, CC 163, CC 165, CC 8377, CC 8362, CC 8381, CC 8361,
                CC 3647, CC 8378, CC 8355, CC 8369, CC 8363, CC 8372]"

definition symbols8 :: "citem list" where
  "symbols8 = [CC 36, CC 8364, CC 163, CC 165, CC 8377, CC 8362, CC 8381, CC 8361]"

definition currencyCodes :: "string list" where
  "currencyCodes =
     [''USD'', ''EUR'', ''GBP'', ''JPY'', ''INR'', ''ILS'', ''CAD'', ''AUD'', ''CHF'', ''CNY'',
      ''BRL'', ''RUB'', ''KRW'', ''THB'', ''TRY'', ''ZAR'', ''SEK'', ''NOK'', ''DKK'', ''PLN'',
      ''CZK'', ''HUF'', ''MXN'', ''NZD'', ''SGD'', ''HKD'', ''TWD'', ''AED'', ''SAR'', ''PHP'',
      ''VND'', ''UAH'', ''RON'', ''ISK'', ''KWD'', ''QAR'', ''EGP'']"

text \<open>The numbers of the capture groups of a pattern.\<close>

fun groups :: "regex \<Rightarrow> nat set" where
  "groups (Seq p q) = groups p \<union> groups q"
| "groups (Alt p q) = groups p \<union> groups q"
| "groups (Star p) = groups p"
| "groups (Grp n p) = insert n (groups p)"
| "groups (Ahead p) = groups p"
| "groups (NAhead p) = groups p"
| "groups _ = {}"

section \<open>The document\<close>

text \<open>
  The part of the DOM that the detection engine reads and writes: a tree of text nodes and
  elements. An element carries its tag name (in upper case, as the DOM reports it for HTML),
  its attributes (\<open>class\<close>, \<open>id\<close>, \<open>style\<close>, \<open>title\<close> and the
  \<open>data-*\<close> attributes behind \<open>dataset\<close>), the declarations assigned through
  \<open>element.style\<close>, and what the browser computed for it: the computed style and the
  bounding rectangle. An element is identified by the path of child indices leading to it.
\<close>

record cstyle =
  display :: jsstring
  visibility :: jsstring
  opacity :: jsstring
  fontSize :: jsstring
  fontWeight :: jsstring
  color :: jsstring
  fontFamily :: jsstring
  lineHeight :: jsstring
  letterSpacing :: jsstring
  textDecoration :: jsstring
  textDecorationLine :: jsstring
  textTransform :: jsstring

record rect =
  rectTop :: real
  rectLeft :: real
  rectWidth :: real
  rectHeight :: real

record edata =
  tagName :: jsstring
  attrs :: "(jsstring \<times> jsstring) list"
  istyle :: "(jsstring \<times> jsstring) list"
  computed :: cstyle
  bounding :: rect

datatype node = TextNode jsstring | Element edata "node list"

type_synonym path = "nat list"

fun nodeAt :: "node \<Rightarrow> path \<Rightarrow> node option" where
  "nodeAt n [] = Some n"
| "nodeAt n (i # p) =
     (case n of TextNode _ \<Rightarrow> None
      | Element d cs \<Rightarrow> if i < length cs then nodeAt (cs ! i) p else None)"

definition elementAt :: "node \<Rightarrow> path \<Rightarrow> edata option" where
  "elementAt doc p = (case nodeAt doc p of Some (Element d cs) \<Rightarrow> Some d | _ \<Rightarrow> None)"

definition childNodes :: "node \<Rightarrow> path \<Rightarrow> node list" where
  "childNodes doc p = (case nodeAt doc p of Some (Element d cs) \<Rightarrow> cs | _ \<Rightarrow> [])"

text \<open>\<open>parentElement\<close>: the root has none.\<close>

definition parentElement :: "path \<Rightarrow> path option" where
  "parentElement p = (if p = [] then None else Some (butlast p))"

fun textContent :: "node \<Rightarrow> jsstring" where
  "textContent (TextNode s) = s"
| "textContent (Element d cs) = concat (map textContent cs)"

definition textAt :: "node \<Rightarrow> path \<Rightarrow> jsstring" where
  "textAt doc p = (case nodeAt doc p of Some n \<Rightarrow> textContent n | None \<Rightarrow> [])"

text \<open>The descendant elements of a node in document order.\<close>

fun descendants :: "node \<Rightarrow> node list" where
  "descendants (TextNode s) = []"
| "descendants (Element d cs) =
     concat (map (\<lambda>c. case c of TextNode _ \<Rightarrow> [] | Element _ _ \<Rightarrow> c # descendants c) cs)"

fun nodeData :: "node \<Rightarrow> edata option" where
  "nodeData (TextNode s) = None"
| "nodeData (Element d cs) = Some d"

definition getAttribute :: "edata \<Rightarrow> string \<Rightarrow> jsstring option" where
  "getAttribute d name = map_of (attrs d) (js name)"

text \<open>A string read in a boolean position: \<open>undefined\<close>, \<open>null\<close> and \<open>''\<close> are falsy.\<close>

fun firstTruthy :: "jsstring option list \<Rightarrow> jsstring option" where
  "firstTruthy [] = None"
| "firstTruthy (None # xs) = firstTruthy xs"
| "firstTruthy (Some v # xs) = (if v = [] then firstTruthy xs else Some v)"

definition className :: "edata \<Rightarrow> jsstring" where
  "className d = (case getAttribute d ''class'' of Some c \<Rightarrow> c | None \<Rightarrow> [])"

definition elemId :: "edata \<Rightarrow> jsstring" where
  "elemId d = (case getAttribute d ''id'' of Some c \<Rightarrow> c | None \<Rightarrow> [])"

text \<open>The tokens of the \<open>class\<close> attribute, for \<open>classList.contains\<close>.\<close>

fun splitSpaces :: "jsstring \<Rightarrow> jsstring \<Rightarrow> jsstring list" where
  "splitSpaces acc [] = (if acc = [] then [] else [rev acc])"
| "splitSpaces acc (x # xs) =
     (if x = 32 \<or> (9 \<le> x \<and> x \<le> 13 \<and> x \<noteq> 11)
      then (if acc = [] then splitSpaces [] xs else rev acc # splitSpaces [] xs)
      else splitSpaces (x # acc) xs)"

definition classListContains :: "edata \<Rightarrow> string \<Rightarrow> bool" where
  "classListContains d c = (js c \<in> set (splitSpaces [] (className d)))"

text \<open>An unstyled inline box, for the elements of the examples.\<close>

definition plainStyle :: cstyle where
  "plainStyle =
     \<lparr>display = js ''inline'', visibility = js ''visible'', opacity = js ''1'',
      fontSize = js ''12px'', fontWeight = js ''400'', color = js ''rgb(0, 0, 0)'',
      fontFamily = js ''serif'', lineHeight = js ''normal'', letterSpacing = js ''normal'',
      textDecoration = js ''none'', textDecorationLine = js ''none'',
      textTransform = js ''none''\<rparr>"

definition smallRect :: rect where
  "smallRect = \<lparr>rectTop = 600, rectLeft = 0, rectWidth = 30, rectHeight = 12\<rparr>"

definition plainElement :: "string \<Rightarrow> (string \<times> string) list \<Rightarrow> node list \<Rightarrow> node" where
  "plainElement tag as cs =
     Element \<lparr>tagName = js tag, attrs = map (\<lambda>(k, v). (js k, js v)) as, istyle = [],
              computed = plainStyle, bounding = smallRect\<rparr> cs"

section \<open>Settings and globals\<close>

record settings =
  defaultTargetCurrency :: jsstring
  highlightPrices :: bool
  showInlineConversion :: bool
  replacePrice :: bool
  decimalPlaces :: jsstring
  useThousandSeparator :: bool

type_synonym rates = "jsstring \<rightharpoonup> jsnum"

text \<open>
  The module-level variables of content.js that the detection engine reads, and the height of
  the viewport.
\<close>

record env =
  exchangeRates :: rates
  userSettings :: settings
  pageCurrency :: "jsstring option"
  currentTheme :: jsstring
  innerHeight :: real

section \<open>Currency detection\<close>

definition codeMatchRe :: regex where
  "codeMatchRe = seqs [WordB, Grp 1 (alts (map lits currencyCodes)), WordB]"

definition currencyNames :: "(string \<times> string) list" where
  "currencyNames =
     [(''dollar'', ''USD''), (''dollars'', ''USD''), (''euro'', ''EUR''), (''euros'', ''EUR''),
      (''pound'', ''GBP''), (''pounds'', ''GBP''), (''yen'', ''JPY''), (''yuan'', ''CNY''),
      (''rupee'', ''INR''), (''rupees'', ''INR''), (''shekel'', ''ILS''), (''shekels'', ''ILS''),
      (''ruble'', ''RUB''), (''rubles'', ''RUB''), (''franc'', ''CHF''), (''francs'', ''CHF''),
      (''peso'', ''MXN''), (''pesos'', ''MXN''), (''won'', ''KRW''), (''baht'', ''THB''),
      (''lira'', ''TRY''), (''rand'', ''ZAR''), (''krona'', ''SEK''), (''krone'', ''NOK''),
      (''zloty'', ''PLN''), (''koruna'', ''CZK'')]"

text \<open>
  The chain of \<open>text.includes\<close> tests of method 4 up to the hryvnia sign, in the order of
  the source: each entry lists the needles of one \<open>if\<close> and the code it returns.
\<close>

definition symbolTable :: "(jsstring list \<times> string) list" where
  "symbolTable =
     [([js ''US $'', js ''US$''], ''USD''),
      ([js ''AU $'', js ''AU$''], ''AUD''),
      ([js ''C$'', js ''CAD$''], ''CAD''),
      ([js ''A$''], ''AUD''),
      ([js ''NZ$'', js ''NZ $''], ''NZD''),
      ([js ''HK$'', js ''HK $''], ''HKD''),
      ([js ''S$'', js ''SG$''], ''SGD''),
      ([js ''R$''], ''BRL''),
      ([js ''NT$'', js ''TW$''], ''TWD''),
      ([js ''MX$''], ''MXN''),
      ([[1583, 46, 1573], js ''AED''], ''AED''),
      ([[1583, 46, 1603], js ''KWD''], ''KWD''),
      ([[8355], js ''CHF''], ''CHF''),
      ([[8364]], ''EUR''),
      ([[163]], ''GBP''),
      ([[8377]], ''INR''),
      ([[8362]], ''ILS''),
      ([[8381]], ''RUB''),
      ([[8361]], ''KRW''),
      ([[3647]], ''THB''),
      ([[8378]], ''TRY''),
      ([[122, 322]], ''PLN''),
      ([[75, 269]], ''CZK''),
      ([js ''Ft''], ''HUF''),
      ([js ''lei''], ''RON''),
      ([[65020]], ''SAR''),
      ([[8369]], ''PHP''),
      ([[8363]], ''VND''),
      ([[8372]], ''UAH'')]"

definition dollarFamily :: "string list" where
  "dollarFamily = [''USD'', ''CAD'', ''AUD'', ''NZD'', ''HKD'', ''SGD'', ''TWD'', ''MXN'']"

text \<open>Method 1: the data attributes of the element and of up to three ancestors.\<close>

fun parentCurrency :: "node \<Rightarrow> path option \<Rightarrow> nat \<Rightarrow> jsstring option" where
  "parentCurrency doc parent 0 = None"
| "parentCurrency doc None (Suc n) = None"
| "parentCurrency doc (Some p) (Suc n) =
     (case elementAt doc p of None \<Rightarrow> None
      | Some d \<Rightarrow>
          (case firstTruthy [getAttribute d ''data-currency'', getAttribute d ''data-currency-code'',
                             getAttribute d ''data-currency''] of
             Some c \<Rightarrow> Some (toUpperCase c)
           | None \<Rightarrow> parentCurrency doc (parentElement p) n))"

definition elementCurrency :: "node \<Rightarrow> path \<Rightarrow> jsstring option" where
  "elementCurrency doc p =
     (case elementAt doc p of None \<Rightarrow> None
      | Some d \<Rightarrow>
          (case firstTruthy [getAttribute d ''data-currency'', getAttribute d ''data-currency-code'',
                             getAttribute d ''data-price-currency'', getAttribute d ''data-currency'',
                             getAttribute d ''data-currency-code''] of
             Some c \<Rightarrow> Some (toUpperCase c)
           | None \<Rightarrow> parentCurrency doc (parentElement p) (Suc (Suc (Suc 0)))))"

text \<open>Method 2: a currency code as a word of the text.\<close>

definition codeCurrency :: "jsstring \<Rightarrow> jsstring option" where
  "codeCurrency text =
     (case match True codeMatchRe text of
        None \<Rightarrow> None
      | Some (m, c) \<Rightarrow>
          (case firstTruthy [grp c 1] of
             Some currency \<Rightarrow> Some (toUpperCase currency)
           | None \<Rightarrow> if includesStr m (js ''US $'') \<or> includesStr m (js ''US$'')
                     then Some (js ''USD'') else None))"

text \<open>Method 3: the name of a currency in the lower-cased text.\<close>

definition nameCurrency :: "jsstring \<Rightarrow> jsstring option" where
  "nameCurrency lowerText =
     map_option (\<lambda>(name, code). js code)
       (find (\<lambda>(name, code). includesStr lowerText (js name)) currencyNames)"

text \<open>Method 4, first part: the symbols that do not depend on the context.\<close>

definition symbolCurrency :: "jsstring \<Rightarrow> jsstring option" where
  "symbolCurrency text =
     map_option (\<lambda>(needles, code). js code)
       (find (\<lambda>(needles, code). list_ex (includesStr text) needles) symbolTable)"

definition collapseSpaces :: "jsstring \<Rightarrow> jsstring" where
  "collapseSpaces s = replaceAll False (Plus space) (js '' '') s"

text \<open>\<open>detectCurrency\<close> (content.js). \<open>pc\<close> is the module variable \<open>pageCurrency\<close>.\<close>

definition detectCurrencyText :: "jsstring option \<Rightarrow> jsstring \<Rightarrow> jsstring option" where
  "detectCurrencyText pc text0 =
     (let text = trim (collapseSpaces text0); lowerText = toLowerCase text in
      (case codeCurrency text of Some c \<Rightarrow> Some c | None \<Rightarrow>
      (case nameCurrency lowerText of Some c \<Rightarrow> Some c | None \<Rightarrow>
      (case symbolCurrency text of Some c \<Rightarrow> Some c | None \<Rightarrow>
      (if includesStr text [165] then
         (if includesStr lowerText (js ''yuan'') \<or> includesStr lowerText (js ''cny'')
             \<or> includesStr lowerText (js ''china'') then Some (js ''CNY'') else Some (js ''JPY''))
       else if includesStr text (js ''kr'') then
         (if includesStr lowerText (js ''denmark'') \<or> includesStr lowerText (js ''dkk'')
          then Some (js ''DKK'')
          else if includesStr lowerText (js ''norway'') \<or> includesStr lowerText (js ''nok'')
          then Some (js ''NOK'')
          else if includesStr lowerText (js ''iceland'') \<or> includesStr lowerText (js ''isk'')
          then Some (js ''ISK'')
          else Some (js ''SEK''))
       else if includesStr text (js ''$'') then
         (case firstTruthy [pc] of
            Some p \<Rightarrow> (if p \<in> set (map js dollarFamily) then Some p else Some (js ''USD''))
          | None \<Rightarrow> Some (js ''USD''))
       else firstTruthy [pc])))))"

definition detectCurrency :: "jsstring option \<Rightarrow> node \<Rightarrow> path option \<Rightarrow> jsstring \<Rightarrow> jsstring option" where
  "detectCurrency pc doc element text =
     (case (case element of None \<Rightarrow> None | Some p \<Rightarrow> elementCurrency doc p) of
        Some c \<Rightarrow> Some c
      | None \<Rightarrow> detectCurrencyText pc text)"

section \<open>Numbers read from and written to text\<close>

definition digitsVal :: "jsstring \<Rightarrow> nat" where
  "digitsVal ds = foldl (\<lambda>a d. 10 * a + (d - 48)) 0 ds"

text \<open>
  The exponent part of a decimal literal, if the text starts with one: its value and sign.
\<close>

definition exponentPart :: "jsstring \<Rightarrow> (bool \<times> nat) option" where
  "exponentPart s =
     (case s of
        [] \<Rightarrow> None
      | e # r \<Rightarrow>
          if e = 101 \<or> e = 69 then
            (let neg = (case r of [] \<Rightarrow> False | x # _ \<Rightarrow> x = 45);
                 r' = (case r of [] \<Rightarrow> [] | x # xs \<Rightarrow> if x = 45 \<or> x = 43 then xs else r);
                 ds = takeWhile isDigitC r'
             in if ds = [] then None else Some (neg, digitsVal ds))
          else None)"

text \<open>
  \<open>parseFloat\<close>: leading white space is skipped, then the longest prefix that is a decimal
  literal is read; without one the result is NaN.
\<close>

definition parseFloat :: "jsstring \<Rightarrow> jsnum" where
  "parseFloat s =
     (let t = dropWhile isSpaceC s;
          neg = (case t of [] \<Rightarrow> False | x # _ \<Rightarrow> x = 45);
          u = (case t of [] \<Rightarrow> [] | x # xs \<Rightarrow> if x = 45 \<or> x = 43 then xs else t)
      in if startsWith u (js ''Infinity'') then (if neg then NInf else PInf)
         else
           let ip = takeWhile isDigitC u;
               r1 = dropWhile isDigitC u;
               hasDot = (case r1 of [] \<Rightarrow> False | x # _ \<Rightarrow> x = 46);
               fp = (if hasDot then takeWhile isDigitC (tl r1) else []);
               r2 = (if hasDot then dropWhile isDigitC (tl r1) else r1)
           in if ip = [] \<and> fp = [] then NaN
              else
                let m = real (digitsVal ip) + real (digitsVal fp) / 10 ^ length fp;
                    v = (case exponentPart r2 of
                           None \<Rightarrow> m
                         | Some (eneg, e) \<Rightarrow> if eneg then m / 10 ^ e else m * 10 ^ e)
                in Fin (if neg then - v else v))"

text \<open>\<open>parseInt\<close> in base ten, for the texts of settings and computed styles.\<close>

definition parseInt :: "jsstring \<Rightarrow> jsnum" where
  "parseInt s =
     (let t = dropWhile isSpaceC s;
          neg = (case t of [] \<Rightarrow> False | x # _ \<Rightarrow> x = 45);
          u = (case t of [] \<Rightarrow> [] | x # xs \<Rightarrow> if x = 45 \<or> x = 43 then xs else t);
          ds = takeWhile isDigitC u
      in if ds = [] then NaN else Fin (if neg then - real (digitsVal ds) else real (digitsVal ds)))"

fun natDigits :: "nat \<Rightarrow> jsstring" where
  "natDigits n = (if n < 10 then [48 + n] else natDigits (n div 10) @ [48 + n mod 10])"

declare natDigits.simps [simp del]

text \<open>
  \<open>Number.prototype.toFixed\<close>: the integer \<open>n\<close> for which \<open>n / 10^d\<close> is nearest to
  the number (the larger one of two), written with \<open>d\<close> digits after the point. Numbers of
  magnitude \<open>10^21\<close> and more, which JavaScript writes with an exponent, are outside the
  model.
\<close>

definition toFixed :: "jsnum \<Rightarrow> nat \<Rightarrow> jsstring" where
  "toFixed x d =
     (case x of
        NaN \<Rightarrow> js ''NaN''
      | PInf \<Rightarrow> js ''Infinity''
      | NInf \<Rightarrow> js ''-Infinity''
      | Fin v \<Rightarrow>
          let n = nat \<lfloor>\<bar>v\<bar> * 10 ^ d + 1 / 2\<rfloor>;
              ds = natDigits n;
              padded = replicate (Suc d - length ds) 48 @ ds;
              ip = take (length padded - d) padded;
              fp = drop (length padded - d) padded
          in (if v < 0 then [45] else []) @ ip @ (if d = 0 then [] else 46 # fp))"

section \<open>Text of a price\<close>

text \<open>\<open>normalizePriceText\<close> (content.js).\<close>

definition pricePrefixRe :: regex where
  "pricePrefixRe =
     seqs [Bol,
           alts [lits ''from'', seqs [lits ''starting'', Chr 32, lits ''at''],
                 seqs [lits ''as'', Chr 32, lits ''low'', Chr 32, lits ''as''],
                 lits ''only'', lits ''just'', lits ''approximately'', lits ''about'',
                 lits ''around''],
           Plus space]"

definition priceSuffixRe :: regex where
  "priceSuffixRe =
     seqs [Plus space,
           alts [lits ''each'', seqs [lits ''per'', Chr 32, lits ''item''], lits ''/item'',
                 seqs [lits ''per'', Chr 32, lits ''unit''], lits ''apiece''],
           Eol]"

definition normalizePriceText :: "jsstring \<Rightarrow> jsstring" where
  "normalizePriceText text =
     (if text = [] then []
      else
        let n1 = replaceAll False (Set [CR 8203 8205, CC 65279]) [] text;
            n2 = replaceAll False (Chr 160) (js '' '') n1;
            n3 = replaceAll False (Plus space) (js '' '') n2;
            n4 = trim n3;
            n5 = replaceFirst True pricePrefixRe [] n4
        in replaceFirst True priceSuffixRe [] n5)"

section \<open>Fragmented prices\<close>

text \<open>
  \<open>FRAGMENTED_PRICE_RULES.aliexpress.validFragmentPattern\<close> (lib/patterns.js) and the two
  classifying patterns of \<open>extractFragmentedPrice\<close>.
\<close>

definition validFragmentPattern :: regex where
  "validFragmentPattern =
     seqs [Bol,
           Grp 1 (alts [seqs [lits ''US'', Star space, Chr 36],
                        rep 2 3 (Set [CR 65 90]),
                        Set symbols14,
                        Plus digit,
                        Set [CC 46, CC 44]]),
           Eol]"

definition digitsOnlyRe :: regex where
  "digitsOnlyRe = seqs [Bol, Plus digit, Eol]"

definition currencyFragmentRe :: regex where
  "currencyFragmentRe =
     seqs [Bol,
           Grp 1 (alts [seqs [lits ''US'', Star space, Chr 36],
                        rep 3 3 (Set [CR 65 90]),
                        Set symbols14]),
           Eol]"

record fragment =
  fragText :: jsstring
  isDecimal :: bool
  isDigit :: bool
  isCurrency :: bool

definition isPriceTag :: "edata \<Rightarrow> bool" where
  "isPriceTag d = (tagName d \<in> set (map js [''SPAN'', ''B'', ''STRONG'', ''EM'']))"

text \<open>\<open>element.querySelectorAll('span, b, strong, em')\<close>\<close>

definition childSpans :: "node \<Rightarrow> node list" where
  "childSpans el =
     filter (\<lambda>n. case nodeData n of None \<Rightarrow> False | Some d \<Rightarrow> isPriceTag d) (descendants el)"

definition spanStyle :: "node \<Rightarrow> jsstring" where
  "spanStyle n =
     (case nodeData n of None \<Rightarrow> []
      | Some d \<Rightarrow> (case firstTruthy [getAttribute d ''style''] of Some v \<Rightarrow> v | None \<Rightarrow> []))"

definition hasCurrencyMetadata :: "node list \<Rightarrow> bool" where
  "hasCurrencyMetadata spans =
     list_ex (\<lambda>n. includesStr (spanStyle n) (js ''currency-symbol:'')
                 \<or> includesStr (spanStyle n) (js ''is-price-power:'')) spans"

text \<open>The fragments kept from the trimmed texts of the spans.\<close>

definition collectFragments :: "jsstring list \<Rightarrow> fragment list" where
  "collectFragments texts =
     concat (map (\<lambda>text.
        if text = [] then []
        else if test False validFragmentPattern text
        then [\<lparr>fragText = text, isDecimal = (text = js ''.'' \<or> text = js '',''),
               isDigit = test False digitsOnlyRe text,
               isCurrency = test False currencyFragmentRe text\<rparr>]
        else []) texts)"

text \<open>
  The reconstruction loop: \<open>acc\<close> is \<open>reconstructed\<close>, \<open>prev\<close> the fragment before the
  current one.
\<close>

fun reconstruct :: "jsstring \<Rightarrow> fragment option \<Rightarrow> fragment list \<Rightarrow> jsstring" where
  "reconstruct acc prev [] = acc"
| "reconstruct acc prev (f # fs) =
     (let prevDecimal = (case prev of None \<Rightarrow> False | Some p \<Rightarrow> isDecimal p);
          prevDigit = (case prev of None \<Rightarrow> False | Some p \<Rightarrow> isDigit p);
          prevCurrency = (case prev of None \<Rightarrow> False | Some p \<Rightarrow> isCurrency p);
          sep = (if acc = [] then []
                 else if isDecimal f \<or> prevDecimal then []
                 else if isDigit f \<and> prevDigit then []
                 else if prevCurrency then js '' ''
                 else if isCurrency f \<and> prevDigit then js '' ''
                 else [])
      in reconstruct (acc @ sep @ fragText f) (Some f) fs)"

definition cleanupReconstructed :: "jsstring \<Rightarrow> jsstring" where
  "cleanupReconstructed r =
     trim (replaceAll False (Seq (Chr 44) (Plus space)) (js '','')
          (replaceAll False (Seq (Plus space) (Chr 44)) (js '','')
          (replaceAll False (Seq (Chr 46) (Plus space)) (js ''.'')
          (replaceAll False (Seq (Plus space) (Chr 46)) (js ''.'') r))))"

text \<open>The first part of \<open>extractFragmentedPrice\<close>: the price put together from child spans.\<close>

definition fragmentedFromSpans :: "node \<Rightarrow> jsstring option" where
  "fragmentedFromSpans el =
     (let spans = childSpans el in
      if 2 \<le> length spans then
        (let fragments = collectFragments (map (\<lambda>n. trim (textContent n)) spans);
             hasReasonablePattern = (2 \<le> length fragments \<and> list_ex isCurrency fragments
                                     \<and> list_ex isDigit fragments)
         in if (hasCurrencyMetadata spans \<or> hasReasonablePattern) \<and> 2 \<le> length fragments
            then (let reconstructed = reconstruct [] None fragments in
                  if reconstructed \<noteq> []
                  then Some (normalizePriceText (cleanupReconstructed reconstructed))
                  else None)
            else None)
      else None)"

text \<open>
  The fallback of \<open>extractFragmentedPrice\<close>: the text nodes below an element in document
  order, without the subtrees of \<open>script\<close>, \<open>style\<close> and \<open>noscript\<close>.
\<close>

fun walkText :: "node \<Rightarrow> jsstring list" where
  "walkText (TextNode s) = [s]"
| "walkText (Element d cs) =
     (if tagName d \<in> set (map js [''SCRIPT'', ''STYLE'', ''NOSCRIPT'']) then []
      else concat (map walkText cs))"

definition codeTailRe :: regex where
  "codeTailRe = seqs [rep 2 3 (Set [CR 65 90]), Eol]"

definition symbolOrDigitHeadRe :: regex where
  "symbolOrDigitHeadRe = seqs [Bol, Set (symbols14 @ [CDigit])]"

definition symbolTailRe :: regex where
  "symbolTailRe = seqs [Set symbols14, Eol]"

definition digitHeadRe :: regex where
  "digitHeadRe = seqs [Bol, digit]"

definition endsWithSpace :: "jsstring \<Rightarrow> bool" where
  "endsWithSpace s = (s \<noteq> [] \<and> last s = 32)"

fun joinTexts :: "jsstring \<Rightarrow> jsstring list \<Rightarrow> jsstring" where
  "joinTexts text [] = text"
| "joinTexts text (t # ts) =
     (let trimmed = trim t;
          sep = (if trimmed \<noteq> [] \<and> text \<noteq> [] \<and> \<not> endsWithSpace text \<and> \<not> startsWith trimmed (js '' '')
                 then (if (test False codeTailRe text \<and> test False symbolOrDigitHeadRe trimmed)
                          \<or> (test False symbolTailRe text \<and> test False digitHeadRe trimmed)
                       then js '' '' else [])
                 else [])
      in joinTexts (text @ sep @ trimmed) ts)"

definition getAllText :: "node \<Rightarrow> jsstring" where
  "getAllText el =
     (case el of TextNode s \<Rightarrow> []
      | Element d cs \<Rightarrow> trim (joinTexts [] (concat (map walkText cs))))"

text \<open>The non-overlapping matches of a pattern with the flag \<open>g\<close>, from the left.\<close>

fun gmatches :: "bool \<Rightarrow> regex \<Rightarrow> jsstring \<Rightarrow> jsstring \<Rightarrow> jsstring list" where
  "gmatches ci re b r =
     (case rm ci re b r [] of
        (b', r', c') # _ \<Rightarrow>
          if length r' < length r then take (length r - length r') r # gmatches ci re b' r'
          else (case r of [] \<Rightarrow> [[]] | x # xs \<Rightarrow> [] # gmatches ci re (x # b) xs)
      | [] \<Rightarrow> (case r of [] \<Rightarrow> [] | x # xs \<Rightarrow> gmatches ci re (x # b) xs))"

declare gmatches.simps [simp del]

definition completePriceSymbolRe :: regex where
  "completePriceSymbolRe =
     alts [Set symbols14, lits ''USD'', lits ''EUR'', lits ''GBP'', lits ''ILS'', lits ''JPY'',
           lits ''CNY'']"

definition symbolNumberRe :: regex where
  "symbolNumberRe = seqs [Set symbols14, Star space, Plus digit]"

text \<open>\<open>extractFragmentedPrice\<close> (content.js) for an element of the document.\<close>

definition extractFragmentedPrice :: "node \<Rightarrow> path \<Rightarrow> jsstring option" where
  "extractFragmentedPrice doc p =
     (case nodeAt doc p of
        None \<Rightarrow> None
      | Some el \<Rightarrow>
          (case fragmentedFromSpans el of
             Some r \<Rightarrow> Some r
           | None \<Rightarrow>
               let combinedText = getAllText el;
                   hasCompletePrice = (test False completePriceSymbolRe combinedText
                                       \<and> test False digit combinedText);
                   combined2 =
                     (case parentElement p of
                        None \<Rightarrow> combinedText
                      | Some q \<Rightarrow>
                          if length combinedText < 10 \<and> \<not> hasCompletePrice then
                            (case nodeAt doc q of
                               None \<Rightarrow> combinedText
                             | Some pe \<Rightarrow>
                                 let parentText = getAllText pe;
                                     priceCount = length (gmatches False symbolNumberRe [] parentText)
                                 in if length combinedText < length parentText
                                       \<and> length parentText < 100 \<and> priceCount \<le> 1
                                    then parentText else combinedText)
                          else combinedText)
               in Some (normalizePriceText combined2)))"

section \<open>Amount extraction\<close>

datatype separator = Comma | Dot | NoSeparator

text \<open>The number of digits at the start of a text, \<open>match(/^\d+/)?.[0]?.length || 0\<close>.\<close>

definition leadingDigits :: "jsstring \<Rightarrow> nat" where
  "leadingDigits s = length (takeWhile isDigitC s)"

definition europeanCurrencies :: "string list" where
  "europeanCurrencies =
     [''EUR'', ''DKK'', ''SEK'', ''NOK'', ''PLN'', ''CZK'', ''HUF'', ''RON'', ''BGN'', ''HRK'']"

text \<open>\<open>detectDecimalSeparator\<close> (content.js).\<close>

definition detectDecimalSeparator :: "jsstring \<Rightarrow> jsstring \<Rightarrow> separator" where
  "detectDecimalSeparator text currency =
     (let preferComma = (currency \<in> set (map js europeanCurrencies)) in
      case (lastIndexOf text 44, lastIndexOf text 46) of
        (Some lastCommaIndex, Some lastDotIndex) \<Rightarrow>
          (let afterComma = leadingDigits (drop (lastCommaIndex + 1) text);
               afterDot = leadingDigits (drop (lastDotIndex + 1) text)
           in if lastDotIndex < lastCommaIndex \<and> afterComma = 2 then Comma
              else if lastCommaIndex < lastDotIndex \<and> afterDot = 2 then Dot
              else if lastDotIndex < lastCommaIndex then Comma else Dot)
      | (Some lastCommaIndex, None) \<Rightarrow>
          (let afterComma = leadingDigits (drop (lastCommaIndex + 1) text)
           in if afterComma = 2 \<or> afterComma = 1 then Comma
              else if preferComma then Comma else Dot)
      | (None, Some lastDotIndex) \<Rightarrow>
          (let afterDot = leadingDigits (drop (lastDotIndex + 1) text)
           in if afterDot = 2 \<or> afterDot = 1 then Dot
              else if preferComma then Comma else Dot)
      | (None, None) \<Rightarrow> NoSeparator)"

text \<open>The number \<open>\d{1,3}(?:[,.\s]\d{3})*(?:[.,]\d{1,2})?\<close> shared by the patterns.\<close>

definition amountBody :: regex where
  "amountBody =
     seqs [rep 1 3 digit,
           Star (Seq (Set [CC 44, CC 46, CSpace]) (rep 3 3 digit)),
           Opt (Seq (Set [CC 46, CC 44]) (rep 1 2 digit))]"

definition abbreviatedCodes :: "string list" where
  "abbreviatedCodes =
     [''USD'', ''EUR'', ''GBP'', ''JPY'', ''INR'', ''ILS'', ''CAD'', ''AUD'', ''CHF'', ''CNY'',
      ''BRL'', ''RUB'', ''KRW'', ''THB'', ''TRY'']"

definition abbreviatedRe :: regex where
  "abbreviatedRe =
     seqs [Grp 1 (alts (Set [CC 8364, CC 163, CC 165, CC 8377, CC 8362, CC 8381, CC 8361, CC 3647,
                             CC 8378, CC 8355, CC 8369, CC 8363, CC 8372, CC 36]
                        # map lits abbreviatedCodes)),
           Star space,
           Grp 2 (Seq (Plus digit) (Opt (Seq (Set [CC 46, CC 44]) (Plus digit)))),
           Star space,
           Grp 3 (Set [CC 75, CC 107, CC 77, CC 109, CC 66, CC 98, CC 84, CC 116]),
           WordB]"

definition symbols13 :: "citem list" where
  "symbols13 = [CC 8364, CC 163, CC 165, CC 8377, CC 8362, CC 8381, CC 8361,
                CC 3647, CC 8378, CC 8355, CC 8369, CC 8363, CC 8372]"

text \<open>
  The cascade of \<open>extractAmount\<close>: each pattern with its flag \<open>i\<close> and with whether its
  source contains \<open>\d+\<close>, which the function tests before it joins two captures.
\<close>

definition amountPatterns :: "(bool \<times> regex \<times> bool) list" where
  "amountPatterns =
     [(True, seqs [lits ''US'', Star space, Chr 36, Star space, Grp 1 amountBody], False),
      (False, seqs [Set symbols13, Star space, Grp 1 amountBody], False),
      (False, seqs [Set [CC 67, CC 65, CC 78, CC 90, CC 72, CC 83, CC 82], Chr 36, Star space,
                    Grp 1 amountBody], False),
      (False, seqs [lits ''NT'', Chr 36, Star space, Grp 1 amountBody], False),
      (False, seqs [Grp 1 amountBody, Star space,
                    alts [Seq (Chr 122) (Chr 322), Seq (Chr 75) (Chr 269), lits ''Ft'', lits ''lei'',
                          lits ''kr'']], False),
      (False, seqs [Chr 36, Star space, Grp 1 amountBody], False),
      (True, seqs [Opt (alts (map lits currencyCodes)), Star space, Grp 1 amountBody, Star space,
                   Opt (alts (map lits currencyCodes))], False),
      (False, seqs [Set [CC 1583, CC 46, CC 1573, CC 65020], Star space, Grp 1 amountBody], False),
      (True, seqs [lits ''US'', Star space, Opt (Chr 36), Star space, Grp 1 (Plus digit), Star space,
                   Opt (Chr 46), Star space, Grp 2 (Plus digit)], True),
      (False, seqs [Chr 36, Star space, Grp 1 (Plus digit), Star space, Opt (Chr 46), Star space,
                    Grp 2 (Plus digit)], True),
      (False, Grp 1 amountBody, False)]"

text \<open>What \<open>extractAmount\<close> does with the match of one pattern.\<close>

definition amountOfMatch :: "jsstring \<Rightarrow> caps \<Rightarrow> bool \<Rightarrow> jsnum option" where
  "amountOfMatch currency c hasDPlus =
     (let amountStr =
            (if firstTruthy [grp c 1] \<noteq> None \<and> firstTruthy [grp c 2] \<noteq> None \<and> hasDPlus
             then Some (the (grp c 1) @ js ''.'' @ the (grp c 2))
             else firstTruthy [grp c 1, grp c 2])
      in case amountStr of
           None \<Rightarrow> None
         | Some a \<Rightarrow>
             let cleaned = replaceAll False (Chr 160) [] (replaceAll False space [] a);
                 decimalSeparator = detectDecimalSeparator cleaned currency;
                 cleaned2 =
                   (case decimalSeparator of
                      Comma \<Rightarrow> replaceChar 44 46 (replaceAll False (Chr 46) [] cleaned)
                    | Dot \<Rightarrow> replaceAll False (Chr 44) [] cleaned
                    | NoSeparator \<Rightarrow> replaceAll False (Set [CC 44, CC 46]) [] cleaned);
                 result = parseFloat cleaned2
             in (case result of Fin v \<Rightarrow> if 0 < v then Some result else None | _ \<Rightarrow> None))"

fun amountCascade :: "jsstring \<Rightarrow> jsstring \<Rightarrow> (bool \<times> regex \<times> bool) list \<Rightarrow> jsnum option" where
  "amountCascade text currency [] = None"
| "amountCascade text currency ((ci, re, hasDPlus) # ps) =
     (case match ci re text of
        None \<Rightarrow> amountCascade text currency ps
      | Some (m, c) \<Rightarrow>
          (case amountOfMatch currency c hasDPlus of
             Some v \<Rightarrow> Some v
           | None \<Rightarrow> amountCascade text currency ps))"

definition abbreviatedAmount :: "jsstring \<Rightarrow> jsnum option" where
  "abbreviatedAmount text =
     (case match True abbreviatedRe text of
        None \<Rightarrow> None
      | Some (m, c) \<Rightarrow>
          let baseAmount = parseFloat (replaceChar 44 46 (the (grp c 2)));
              suffix = toUpperCase (the (grp c 3));
              multiplier = (if suffix = js ''K'' then 1000
                            else if suffix = js ''M'' then 1000000
                            else if suffix = js ''B'' then 1000000000
                            else if suffix = js ''T'' then 1000000000000 else 1)
          in Some (jsmul baseAmount (Fin multiplier)))"

text \<open>\<open>extractAmount\<close> (content.js); the element is optional.\<close>

definition extractAmount :: "node \<Rightarrow> jsstring \<Rightarrow> jsstring \<Rightarrow> path option \<Rightarrow> jsnum option" where
  "extractAmount doc text0 currency element =
     (let text1 = normalizePriceText text0;
          text =
            (case element of
               None \<Rightarrow> text1
             | Some p \<Rightarrow>
                 (case firstTruthy [extractFragmentedPrice doc p] of
                    None \<Rightarrow> text1
                  | Some fragmentedText \<Rightarrow>
                      if fragmentedText \<noteq> text1 \<and> length text1 < length fragmentedText
                      then fragmentedText else text1))
      in case abbreviatedAmount text of
           Some v \<Rightarrow> Some v
         | None \<Rightarrow> amountCascade text currency amountPatterns)"

section \<open>Conversion engine\<close>

text \<open>
  The rate table \<open>exchangeRates\<close> (here \<open>xr\<close>) is an object from currency codes to
  numbers; reading a key that is not there gives \<open>undefined\<close>, which is falsy.
\<close>

definition rate_ok :: "rates \<Rightarrow> jsstring \<Rightarrow> bool" where
  "rate_ok xr c = (case xr c of None \<Rightarrow> False | Some r \<Rightarrow> truthy r)"

text \<open>\<open>calculateConversion\<close> (content.js); \<open>null\<close> is \<open>None\<close>.\<close>

definition calculateConversion :: "rates \<Rightarrow> jsnum \<Rightarrow> jsstring \<Rightarrow> jsstring \<Rightarrow> jsnum option" where
  "calculateConversion xr amount sourceCurrency targetCurrency =
     (if \<not> rate_ok xr sourceCurrency \<or> \<not> rate_ok xr targetCurrency
      then None
      else
        let usdAmount = jsdiv amount (the (xr sourceCurrency));
            convertedAmount = jsmul usdAmount (the (xr targetCurrency))
        in if isNaN convertedAmount \<or> \<not> isFinite convertedAmount then None
           else Some convertedAmount)"


text \<open>The built-in fallback table of content.js.\<close>

definition rates_default :: rates where
  "rates_default =
     [js ''USD'' \<mapsto> Fin 1, js ''ILS'' \<mapsto> Fin (37 / 10), js ''EUR'' \<mapsto> Fin (11 / 10),
      js ''GBP'' \<mapsto> Fin (8 / 10)]"

section \<open>Price validation and scoring\<close>

record validation =
  isPrice :: bool
  confidence :: int
  reason :: string

definition phoneRe :: regex where
  "phoneRe =
     seqs [Bol, Opt (Chr 43), rep 1 3 digit, Opt (Set [CSpace, CC 46, CC 45]), Opt (Chr 40),
           rep 3 3 digit, Opt (Chr 41), Opt (Set [CSpace, CC 46, CC 45]), rep 3 3 digit,
           Opt (Set [CSpace, CC 46, CC 45]), rep 4 4 digit, Eol]"

definition yearRe :: regex where
  "yearRe = seqs [WordB, Grp 1 (Alt (lits ''19'') (lits ''20'')), rep 2 2 digit, WordB]"

definition percentCurrencyRe :: regex where
  "percentCurrencyRe =
     alts [Chr 36, Chr 8364, Chr 163, Chr 165, lits ''usd'', lits ''eur'', lits ''gbp'']"

definition productCodeRe :: regex where
  "productCodeRe =
     seqs [Bol, Plus (Set [CR 65 90, CR 48 57]), Chr 45, Plus (Set [CR 65 90, CR 48 57]), Chr 45,
           Plus (Set [CR 65 90, CR 48 57]), Eol]"

definition dimensionRe :: regex where
  "dimensionRe = seqs [Plus digit, Star space, Set [CC 120, CC 215], Star space, Plus digit]"

definition validationCodes :: "string list" where
  "validationCodes =
     [''usd'', ''eur'', ''gbp'', ''jpy'', ''cny'', ''inr'', ''ils'', ''cad'', ''aud'', ''chf'',
      ''brl'', ''rub'', ''krw'', ''thb'', ''try'', ''zar'', ''sek'', ''nok'', ''dkk'', ''pln'',
      ''czk'', ''huf'', ''mxn'', ''nzd'', ''sgd'', ''hkd'', ''twd'', ''aed'', ''sar'', ''php'',
      ''vnd'', ''uah'', ''ron'', ''isk'', ''kwd'', ''qar'', ''egp'']"

definition hasCurrencyRe :: regex where
  "hasCurrencyRe = Alt (Set symbols14) (Seq (alts (map lits validationCodes)) WordB)"

text \<open>
  The pattern \<open>\b(USD|EUR|GBP|JPY|CNY|...)\s+\d\<close> with the flag \<open>i\<close>; the codes are those
  of \<open>validationCodes\<close>, and with the flag their case does not matter.
\<close>

definition codeAmountRe :: regex where
  "codeAmountRe = seqs [WordB, Grp 1 (alts (map lits validationCodes)), Plus space, digit]"

definition classKeywordRe :: regex where
  "classKeywordRe =
     alts [lits ''price'', lits ''cost'', lits ''amount'', lits ''total'', lits ''subtotal'',
           lits ''payment'', lits ''pay'']"

definition priceContextKeywords :: regex where
  "priceContextKeywords =
     alts [lits ''buy'', lits ''cart'', lits ''checkout'', lits ''purchase'', lits ''order'',
           seqs [lits ''add'', Chr 32, lits ''to''], lits ''price'', lits ''cost'', lits ''total'',
           lits ''pay'', lits ''sale'', lits ''discount'', lits ''save'', lits ''offer'']"

definition numMatchRe :: regex where
  "numMatchRe =
     Grp 1 (Alt (seqs [digit, Star (Set [CDigit, CC 44, CC 46, CSpace]), digit]) digit)"

definition decimalRe :: regex where
  "decimalRe = seqs [Plus digit, Set [CC 46, CC 44], rep 2 2 digit]"

definition perfectPriceRe :: regex where
  "perfectPriceRe =
     seqs [Bol, Set symbols8, Star space, Plus digit,
           Opt (Grp 1 (Seq (Set [CC 46, CC 44]) (rep 2 2 digit))), Eol]"

definition classAndId :: "edata \<Rightarrow> jsstring" where
  "classAndId d = toLowerCase (className d @ js '' '' @ elemId d)"

text \<open>\<open>element.parentElement ? element.parentElement.textContent.toLowerCase() : ''\<close>\<close>

definition parentTextLower :: "node \<Rightarrow> path \<Rightarrow> jsstring" where
  "parentTextLower doc p =
     (case parentElement p of None \<Rightarrow> [] | Some q \<Rightarrow> toLowerCase (textAt doc q))"

text \<open>A comparison of a number with a finite bound; every comparison with NaN is false.\<close>

fun jsge :: "jsnum \<Rightarrow> real \<Rightarrow> bool" where
  "jsge (Fin v) r = (r \<le> v)"
| "jsge PInf r = True"
| "jsge _ r = False"

fun jsle :: "jsnum \<Rightarrow> real \<Rightarrow> bool" where
  "jsle (Fin v) r = (v \<le> r)"
| "jsle NInf r = True"
| "jsle _ r = False"

fun jsgt :: "jsnum \<Rightarrow> real \<Rightarrow> bool" where
  "jsgt (Fin v) r = (r < v)"
| "jsgt PInf r = True"
| "jsgt _ r = False"

definition clampScore :: "int \<Rightarrow> int" where
  "clampScore c = min 100 (max 0 c)"

definition rejected :: "string \<Rightarrow> validation" where
  "rejected why = \<lparr>isPrice = False, confidence = 0, reason = why\<rparr>"

text \<open>\<open>isProbablyPrice\<close> (content.js), for an element of the document.\<close>

definition isProbablyPrice :: "node \<Rightarrow> path \<Rightarrow> jsstring \<Rightarrow> validation" where
  "isProbablyPrice doc p text0 =
     (case elementAt doc p of
        None \<Rightarrow> rejected []
      | Some d \<Rightarrow>
     if text0 = [] then rejected []
     else
       let text = trim (toLowerCase text0) in
       if test False phoneRe text then rejected ''phone_number''
       else if test False (Chr 37) text \<and> \<not> test True percentCurrencyRe text
       then rejected ''percentage''
       else if test True productCodeRe text then rejected ''product_code''
       else if test True dimensionRe text then rejected ''dimension''
       else
         let c0 = 50 + (if test False yearRe text \<and> length text < 10 then - 30 else 0);
             c1 = c0 + (if test True hasCurrencyRe text then 40 else 0);
             c2 = c1 + (if test True codeAmountRe text then 30 else 0);
             c3 = c2 + (if test False classKeywordRe (classAndId d) then 20 else 0);
             c4 = c3 + (if test False priceContextKeywords (take 500 (parentTextLower doc p))
                        then 15 else 0);
             c5 = c4 + (case match False numMatchRe text of
                          None \<Rightarrow> 0
                        | Some (m, c) \<Rightarrow>
                            let num = parseFloat (replaceAll False (Set [CC 44, CSpace]) [] m)
                            in if jsge num (1 / 100) \<and> jsle num (99999999999 / 100)
                               then 10 else - 20);
             c6 = c5 + (if test False decimalRe text then 15 else 0);
             c7 = c6 + (if test False perfectPriceRe text then 20 else 0)
         in \<lparr>isPrice = (60 \<le> c7), confidence = clampScore c7,
             reason = (if 60 \<le> c7 then ''validated'' else ''low_confidence'')\<rparr>)"

definition greenRe :: regex where
  "greenRe =
     Alt (seqs [lits ''rgb(0,'', Star space, lits ''128,'', Star space, lits ''0)''])
         (seqs [lits ''rgb(34,'', Star space, lits ''139,'', Star space, lits ''34)''])"

definition redRe :: regex where
  "redRe =
     Alt (seqs [lits ''rgb(255,'', Star space, lits ''0,'', Star space, lits ''0)''])
         (seqs [lits ''rgb(220,'', Star space, lits ''20,'', Star space, lits ''60)''])"

text \<open>\<open>analyzeVisualContext\<close> (content.js): the score.\<close>

definition analyzeVisualContext :: "real \<Rightarrow> edata \<Rightarrow> int" where
  "analyzeVisualContext viewportHeight d =
     (let style = computed d; r = bounding d;
          isVisible = (display style \<noteq> js ''none'' \<and> visibility style \<noteq> js ''hidden''
                       \<and> opacity style \<noteq> js ''0'' \<and> 0 < rectWidth r \<and> 0 < rectHeight r)
      in if \<not> isVisible then 0
         else
           let fs = parseFloat (fontSize style);
               s1 = 50 + (if jsge fs 24 then 20 else if jsge fs 18 then 15
                          else if jsge fs 14 then 5 else - 10);
               fw0 = parseInt (fontWeight style);
               fw = (if truthy fw0 then fw0 else Fin 400);
               s2 = s1 + (if jsge fw 700 then 15 else if jsge fw 600 then 10 else 0);
               s3 = s2 + (if test True greenRe (color style) then 10 else 0);
               s4 = s3 + (if test True redRe (color style) then 5 else 0);
               s5 = s4 + (if rectTop r < viewportHeight * (1 / 2) then 10
                          else if viewportHeight * (3 / 2) < rectTop r then - 5 else 0);
               area = rectWidth r * rectHeight r;
               s6 = s5 + (if 5000 < area then 15 else if 2000 < area then 10
                          else if area < 500 then - 5 else 0)
           in clampScore s6)"

definition ariaPriceRe :: regex where
  "ariaPriceRe = alts [lits ''price'', lits ''cost'', lits ''amount'']"

definition buyButtonRe :: regex where
  "buyButtonRe = alts [lits ''buy'', lits ''cart'', lits ''checkout'']"

definition attrTruthy :: "edata \<Rightarrow> string \<Rightarrow> bool" where
  "attrTruthy d name = (firstTruthy [getAttribute d name] \<noteq> None)"

text \<open>\<open>analyzeSemanticHTML\<close> (content.js): the score.\<close>

definition analyzeSemanticHTML :: "edata \<Rightarrow> jsstring \<Rightarrow> int" where
  "analyzeSemanticHTML d elementText =
     (let itemprop = getAttribute d ''itemprop'';
          itemtype = getAttribute d ''itemtype'';
          ariaLabel = (case firstTruthy [getAttribute d ''aria-label''] of Some v \<Rightarrow> v | None \<Rightarrow> []);
          s1 = (if itemprop = Some (js ''price'') then 40 else 0);
          s2 = s1 + (if itemprop = Some (js ''priceCurrency'') then 30 else 0);
          s3 = s2 + (case itemtype of Some t \<Rightarrow> if includesStr t (js ''Offer'') then 20 else 0
                     | None \<Rightarrow> 0);
          s4 = s3 + (case itemtype of Some t \<Rightarrow> if includesStr t (js ''Product'') then 15 else 0
                     | None \<Rightarrow> 0);
          s5 = s4 + (if test True ariaPriceRe ariaLabel then 25 else 0);
          s6 = s5 + (if attrTruthy d ''data-price'' then 35 else 0);
          s7 = s6 + (if attrTruthy d ''data-amount'' then 30 else 0);
          s8 = s7 + (if attrTruthy d ''data-currency'' then 25 else 0);
          s9 = s8 + (if getAttribute d ''role'' = Some (js ''button'') \<and> test True buyButtonRe elementText
                     then 10 else 0)
      in min 100 s9)"

definition buyNowRe :: regex where
  "buyNowRe =
     alts [seqs [lits ''buy'', Chr 32, lits ''now''],
           seqs [lits ''add'', Chr 32, lits ''to'', Chr 32, lits ''cart''],
           lits ''checkout'', lits ''purchase'']"

definition productClassRe :: regex where
  "productClassRe = alts [lits ''product'', lits ''item'', lits ''price'']"

definition contextScore :: "node \<Rightarrow> path \<Rightarrow> edata \<Rightarrow> int" where
  "contextScore doc p d =
     50 + (if test True buyNowRe (take 300 (parentTextLower doc p)) then 30 else 0)
        + (if test True productClassRe (className d @ js '' '' @ elemId d) then 20 else 0)"

definition parentHasPriceClass :: "node \<Rightarrow> path \<Rightarrow> bool" where
  "parentHasPriceClass doc p =
     (case parentElement p of None \<Rightarrow> False
      | Some q \<Rightarrow> (case elementAt doc q of None \<Rightarrow> False | Some pd \<Rightarrow> classListContains pd ''price''))"

definition structScore :: "node \<Rightarrow> path \<Rightarrow> edata \<Rightarrow> int" where
  "structScore doc p d =
     50 + (if toLowerCase (tagName d) \<in> set (map js [''span'', ''div'', ''strong'', ''b''])
           then 20 else 0)
        + (if parentHasPriceClass doc p then 30 else 0)"

text \<open>The weighted sum of \<open>scorePriceElement\<close> before rounding, and \<open>Math.round\<close>.\<close>

definition weightedScore :: "int \<Rightarrow> int \<Rightarrow> int \<Rightarrow> int \<Rightarrow> int \<Rightarrow> real" where
  "weightedScore validationC visual semantic contextual structural =
     real_of_int validationC * (25 / 100) + real_of_int visual * (20 / 100)
     + real_of_int semantic * (25 / 100) + real_of_int contextual * (15 / 100)
     + real_of_int structural * (15 / 100)"

definition mathRound :: "real \<Rightarrow> int" where
  "mathRound x = \<lfloor>x + 1 / 2\<rfloor>"

text \<open>\<open>scorePriceElement\<close> (content.js): the field \<open>total\<close>.\<close>

definition scorePriceElement :: "env \<Rightarrow> node \<Rightarrow> path \<Rightarrow> jsstring \<Rightarrow> int" where
  "scorePriceElement env doc p text =
     (case elementAt doc p of
        None \<Rightarrow> 0
      | Some d \<Rightarrow>
          mathRound (weightedScore (confidence (isProbablyPrice doc p text))
                       (analyzeVisualContext (innerHeight env) d)
                       (analyzeSemanticHTML d (textAt doc p))
                       (contextScore doc p d)
                       (structScore doc p d)))"

section \<open>Sale prices, shipping costs, quantities and second currencies\<close>

definition saleKeywordRe :: regex where
  "saleKeywordRe =
     seqs [WordB,
           Grp 1 (alts [lits ''was'', lits ''originally'', lits ''reg.'', lits ''regular'',
                        seqs [lits ''list'', Chr 32, lits ''price''],
                        seqs [lits ''compare'', Chr 32, lits ''at''], lits ''msrp'', lits ''rrp'']),
           WordB]"

definition discountContextRe :: regex where
  "discountContextRe =
     seqs [WordB,
           Grp 1 (alts [lits ''save'', lits ''off'', lits ''discount'', lits ''sale'',
                        lits ''clearance'', lits ''reduced'']),
           WordB]"

definition saleClassRe :: regex where
  "saleClassRe =
     alts [lits ''strike'', lits ''through'', lits ''original'', lits ''was'', lits ''old'',
           lits ''compare'', lits ''regular'', lits ''msrp'', lits ''rrp'']"

text \<open>\<open>detectSalePrice\<close> (content.js): the fields \<open>isOldPrice\<close> and \<open>confidence\<close>.\<close>

definition detectSalePrice :: "node \<Rightarrow> path \<Rightarrow> bool \<times> int" where
  "detectSalePrice doc p =
     (case elementAt doc p of
        None \<Rightarrow> (False, 0)
      | Some d \<Rightarrow>
          let text = toLowerCase (textAt doc p);
              isStrikethrough = (includesStr (textDecoration (computed d)) (js ''line-through'')
                                 \<or> includesStr (textDecorationLine (computed d)) (js ''line-through''));
              hasSaleKeywords = test True saleKeywordRe text;
              hasDiscountContext = test False discountContextRe (parentTextLower doc p);
              hasSaleClass = test True saleClassRe (classAndId d)
          in (isStrikethrough \<or> hasSaleKeywords \<or> hasSaleClass,
              (if isStrikethrough then 40 else 0) + (if hasSaleKeywords then 30 else 0)
              + (if hasSaleClass then 20 else 0) + (if hasDiscountContext then 10 else 0)))"

definition shippingKeywords :: regex where
  "shippingKeywords =
     seqs [WordB,
           Grp 1 (alts [lits ''shipping'', lits ''delivery'', lits ''freight'', lits ''postage'',
                        lits ''handling'', lits ''ship'', lits ''s&h'', lits ''s/h'']),
           WordB]"

text \<open>\<open>isShippingCost\<close> (content.js).\<close>

definition isShippingCost :: "node \<Rightarrow> path \<Rightarrow> bool" where
  "isShippingCost doc p =
     (case elementAt doc p of
        None \<Rightarrow> False
      | Some d \<Rightarrow>
          test True shippingKeywords (toLowerCase (textAt doc p))
          \<or> test True shippingKeywords (classAndId d)
          \<or> test True shippingKeywords (take 200 (parentTextLower doc p)))"

datatype quantity = NotQuantity | BulkOffer | QuantityPrice jsstring

definition symbolAmount :: regex where
  "symbolAmount =
     seqs [Set symbols8, Star space, Plus digit, Opt (Set [CC 46, CC 44]), Star digit]"

definition quantityForRe :: regex where
  "quantityForRe = seqs [Grp 1 (Plus digit), Plus space, lits ''for'', Plus space, Grp 2 symbolAmount]"

definition quantityEachRe :: regex where
  "quantityEachRe =
     seqs [Grp 1 symbolAmount, Plus space,
           alts [lits ''each'', seqs [lits ''per'', Chr 32, lits ''item''],
                 seqs [lits ''per'', Chr 32, lits ''unit''], lits ''apiece'']]"

definition buyGetRe :: regex where
  "buyGetRe = seqs [lits ''buy'', Plus space, Plus digit, Plus space, lits ''get'', Plus space, Plus digit]"

text \<open>\<open>detectQuantityPricing\<close> (content.js): the three patterns in their order.\<close>

definition detectQuantityPricing :: "jsstring \<Rightarrow> quantity" where
  "detectQuantityPricing text =
     (if text = [] then NotQuantity
      else
        (case (case match True quantityForRe text of
                 None \<Rightarrow> None
               | Some (m, c) \<Rightarrow> firstTruthy [grp c 2, grp c 1]) of
           Some priceText \<Rightarrow> QuantityPrice priceText
         | None \<Rightarrow>
        (case (case match True quantityEachRe text of
                 None \<Rightarrow> None
               | Some (m, c) \<Rightarrow> firstTruthy [grp c 2, grp c 1]) of
           Some priceText \<Rightarrow> QuantityPrice priceText
         | None \<Rightarrow> if test True buyGetRe text then BulkOffer else NotQuantity)))"

definition multiCurrencyRe :: regex where
  "multiCurrencyRe =
     seqs [Grp 1 (alts [Set symbols8, lits ''USD'', lits ''EUR'', lits ''GBP'', lits ''JPY'']),
           Star space,
           Grp 2 (seqs [Plus digit, Opt (Set [CC 46, CC 44]), Star digit]),
           Star space, Chr 40, Grp 3 (Plus (NSet [CC 41])), Chr 41]"

text \<open>\<open>detectMultiCurrency\<close> (content.js): the primary price, if the text shows two.\<close>

definition detectMultiCurrency :: "jsstring \<Rightarrow> jsstring option" where
  "detectMultiCurrency text =
     (if text = [] then None
      else
        (case match True multiCurrencyRe text of
           None \<Rightarrow> None
         | Some (m, c) \<Rightarrow>
             (case (firstTruthy [grp c 1], firstTruthy [grp c 2]) of
                (Some g1, Some g2) \<Rightarrow> Some (g1 @ js '' '' @ g2)
              | _ \<Rightarrow> None)))"

definition loneSymbolRe :: regex where
  "loneSymbolRe = seqs [Bol, Set symbols8, Eol]"

definition decimalPartRe :: regex where
  "decimalPartRe = seqs [Bol, Chr 46, rep 1 2 digit, Eol]"

fun isElementNode :: "node \<Rightarrow> bool" where
  "isElementNode (TextNode s) = False"
| "isElementNode (Element d cs) = True"

text \<open>
  \<open>assembleCrossElementPrice\<close> (content.js). The siblings are the element children of the
  parent; \<open>k\<close> is the index of the element among them.
\<close>

definition assembleCrossElementPrice :: "node \<Rightarrow> path \<Rightarrow> jsstring option" where
  "assembleCrossElementPrice doc p =
     (case parentElement p of
        None \<Rightarrow> None
      | Some q \<Rightarrow>
          let nodes = childNodes doc q;
              k = length (filter isElementNode (take (last p) nodes));
              siblings = filter isElementNode nodes;
              own = trim (textAt doc p);
              a1 = (if 0 < k \<and> test False loneSymbolRe (trim (textContent (siblings ! (k - 1))))
                    then trim (textContent (siblings ! (k - 1))) @ js '' '' @ own else own);
              a2 = (if k + 1 < length siblings
                       \<and> test False decimalPartRe (trim (textContent (siblings ! (k + 1))))
                    then a1 @ trim (textContent (siblings ! (k + 1))) else a1)
          in if a2 \<noteq> own then Some a2 else None)"

section \<open>Price ranges\<close>

text \<open>
  \<open>PRICE_RANGE_REGEX\<close> and \<open>PRICE_RANGE_TO_REGEX\<close> (lib/regex.js). Each has two
  alternatives with four capture groups: symbol, price, symbol, price in the first, and code,
  price, price, code in the second.
\<close>

definition specialCodes :: regex where
  "specialCodes =
     alts [lits ''US'', lits ''C'', lits ''A'', lits ''NZ'', lits ''HK'', lits ''S'', lits ''R'',
           lits ''NT'']"

definition priceNumber :: regex where
  "priceNumber = Seq (Plus digit) (Opt (Seq (Set [CC 46, CC 44]) (Plus digit)))"

definition dashes :: regex where
  "dashes = Set [CC 45, CC 8211, CC 8212, CC 126]"

definition rangeSymbolAlt :: "regex \<Rightarrow> regex" where
  "rangeSymbolAlt sep =
     seqs [Opt (Seq specialCodes (Star space)), Grp 1 (Set symbols14), Star space,
           Grp 2 priceNumber, sep,
           Opt (Seq specialCodes (Star space)), Opt (Grp 3 (Set symbols14)), Star space,
           Grp 4 priceNumber]"

definition rangeCodeAlt :: "regex \<Rightarrow> regex" where
  "rangeCodeAlt sep =
     seqs [Opt (Seq (Grp 5 (rep 3 3 (Set [CR 65 90]))) (Plus space)), Grp 6 priceNumber, sep,
           Grp 7 priceNumber, Star space, Opt (Grp 8 (rep 3 3 (Set [CR 65 90])))]"

definition dashSep :: regex where
  "dashSep = seqs [Star space, dashes, Star space]"

definition toSep :: regex where
  "toSep = seqs [Plus space, lits ''to'', Plus space]"

definition PRICE_RANGE_REGEX :: regex where
  "PRICE_RANGE_REGEX = Alt (rangeSymbolAlt dashSep) (rangeCodeAlt dashSep)"

definition PRICE_RANGE_TO_REGEX :: regex where
  "PRICE_RANGE_TO_REGEX = Alt (rangeSymbolAlt toSep) (rangeCodeAlt toSep)"

record rangeData =
  minPrice :: jsnum
  maxPrice :: jsnum
  currency :: jsstring
  currencySymbol :: jsstring
  currencyCode :: jsstring
  separator :: jsstring
  fullMatch :: jsstring
  originalText :: jsstring

text \<open>
  The components that \<open>detectPriceRange\<close> reads from a match, by the group numbers the
  function uses: currency code, currency symbol, lower price and upper price.
\<close>

definition rangeComponents :: "caps \<Rightarrow> jsstring option \<times> jsstring option \<times> jsstring option \<times> jsstring option" where
  "rangeComponents c =
     (if firstTruthy [grp c 2] \<noteq> None
      then (firstTruthy [grp c 1, grp c 4], firstTruthy [grp c 2, grp c 5],
            firstTruthy [grp c 3], firstTruthy [grp c 6])
      else if firstTruthy [grp c 8] \<noteq> None
      then (firstTruthy [grp c 7, grp c 10], None, firstTruthy [grp c 8], firstTruthy [grp c 9])
      else (firstTruthy [grp c 1, grp c 4, grp c 7], firstTruthy [grp c 2, grp c 5],
            firstTruthy [grp c 3], firstTruthy [grp c 6]))"

definition optStr :: "jsstring option \<Rightarrow> jsstring" where
  "optStr v = (case v of Some x \<Rightarrow> x | None \<Rightarrow> [])"

text \<open>\<open>detectPriceRange\<close> (content.js); \<open>None\<close> is the result \<open>{ isRange: false }\<close>.\<close>

definition detectPriceRange :: "jsstring option \<Rightarrow> jsstring \<Rightarrow> rangeData option" where
  "detectPriceRange pc text =
     (if text = [] then None
      else
        (case (case match True PRICE_RANGE_REGEX text of
                 Some (m, c) \<Rightarrow> Some (m, c, js ''-'')
               | None \<Rightarrow> map_option (\<lambda>(m, c). (m, c, js ''to''))
                           (match True PRICE_RANGE_TO_REGEX text)) of
           None \<Rightarrow> None
         | Some (m, c, sep) \<Rightarrow>
             (case rangeComponents c of
                (code, symbol, Some minP, Some maxP) \<Rightarrow>
                  (let currencyText = optStr code @ optStr symbol in
                   if currencyText = [] then None
                   else
                     (case detectCurrency pc (TextNode []) None currencyText of
                        None \<Rightarrow> None
                      | Some detected \<Rightarrow>
                          Some \<lparr>minPrice = parseFloat (replaceChar 44 46 minP),
                                maxPrice = parseFloat (replaceChar 44 46 maxP),
                                currency = detected,
                                currencySymbol = optStr symbol,
                                currencyCode = optStr code,
                                separator = sep,
                                fullMatch = m,
                                originalText = text\<rparr>))
              | _ \<Rightarrow> None)))"

section \<open>Formatting\<close>

text \<open>The table of \<open>getCurrencySymbol\<close> (lib/patterns.js).\<close>

definition currencySymbols :: "(string \<times> jsstring) list" where
  "currencySymbols =
     [(''USD'', js ''$''), (''EUR'', [8364]), (''GBP'', [163]), (''JPY'', [165]),
      (''INR'', [8377]), (''ILS'', [8362]), (''RUB'', [8381]), (''KRW'', [8361]),
      (''THB'', [3647]), (''TRY'', [8378]), (''CAD'', js ''C$''), (''AUD'', js ''A$''),
      (''NZD'', js ''NZ$''), (''HKD'', js ''HK$''), (''SGD'', js ''S$''),
      (''BRL'', js ''R$''), (''ZAR'', js ''R''), (''SEK'', js ''kr''), (''NOK'', js ''kr''),
      (''DKK'', js ''kr''), (''PLN'', [122, 322]), (''CZK'', [75, 269]), (''HUF'', js ''Ft''),
      (''RON'', js ''lei''), (''TWD'', js ''NT$''), (''AED'', [1583, 46, 1573]),
      (''SAR'', [65020]), (''PHP'', [8369]), (''VND'', [8363]), (''UAH'', [8372]),
      (''CHF'', [8355]), (''MXN'', js ''$''), (''CNY'', [165]), (''ISK'', js ''kr''),
      (''KWD'', [1583, 46, 1603]), (''QAR'', [65020]), (''EGP'', [163]),
      (''BGN'', [1083, 1074]), (''HRK'', js ''kn''), (''ALL'', js ''L''), (''ARS'', js ''$''),
      (''CLP'', js ''$''), (''COP'', js ''$''), (''PEN'', js ''S/''), (''UYU'', js ''$''),
      (''VEF'', js ''Bs''), (''BOB'', js ''Bs''), (''CRC'', [8353]), (''DOP'', js ''RD$''),
      (''GTQ'', js ''Q''), (''PYG'', [8370]), (''HNL'', js ''L''), (''NIO'', js ''C$''),
      (''PAB'', js ''B/.''), (''JMD'', js ''J$''), (''MYR'', js ''RM''), (''IDR'', js ''Rp''),
      (''PKR'', [8360]), (''BDT'', [2547]), (''LKR'', js ''Rs''), (''NPR'', js ''Rs''),
      (''MMK'', js ''K''), (''KHR'', [6107]), (''LAK'', [8365]), (''AFN'', [1547]),
      (''BHD'', [1583, 46, 1576]), (''OMR'', [65020]), (''JOD'', [1583, 46, 1575]),
      (''LBP'', [1604, 46, 1604]), (''IQD'', [1593, 46, 1583]), (''SYP'', [163]),
      (''YER'', [65020]), (''SDG'', [163]), (''NGN'', [8358]), (''KES'', js ''KSh''),
      (''GHS'', [8373]), (''MAD'', [1583, 46, 1605, 46]), (''TZS'', js ''TSh''),
      (''UGX'', js ''USh''), (''ETB'', js ''Br''), (''DZD'', [1583, 46, 1580]),
      (''TND'', [1583, 46, 1578]), (''LYD'', [1604, 46, 1583]), (''MUR'', [8360]),
      (''NAD'', js ''$''), (''BWP'', js ''P''), (''MZN'', js ''MT''), (''XOF'', js ''CFA''),
      (''XAF'', js ''CFA''), (''MKD'', [1076, 1077, 1085]), (''RSD'', [1076, 1080, 1085]),
      (''BAM'', js ''KM''), (''GEL'', [8382]), (''AMD'', [1423]), (''AZN'', [8380]),
      (''BYN'', js ''Br''), (''MDL'', js ''L''), (''KZT'', [8376]), (''BTC'', [8383]),
      (''ETH'', [926]), (''USDT'', [8366]), (''USDC'', js ''$''), (''BNB'', js ''BNB''),
      (''XRP'', js ''XRP''), (''ADA'', [8371]), (''SOL'', js ''SOL''), (''DOGE'', [208]),
      (''DOT'', js ''DOT''), (''MATIC'', js ''MATIC''), (''LTC'', [321]),
      (''BCH'', js ''BCH''), (''LINK'', js ''LINK''), (''XLM'', js ''XLM''),
      (''ATOM'', js ''ATOM'')]"

definition getCurrencySymbol :: "jsstring \<Rightarrow> jsstring" where
  "getCurrencySymbol code =
     (case firstTruthy [map_of (map (\<lambda>(k, v). (js k, v)) currencySymbols) code] of
        Some v \<Rightarrow> v | None \<Rightarrow> code)"

text \<open>
  The text of a finite number with a short decimal expansion, for the numbers that the
  program writes into attributes: the digits before the point and up to twenty digits after
  it, without trailing zeros.
\<close>

fun fracDigits :: "nat \<Rightarrow> real \<Rightarrow> jsstring" where
  "fracDigits 0 f = []"
| "fracDigits (Suc n) f =
     (if f = 0 then [] else (48 + nat \<lfloor>f * 10\<rfloor>) # fracDigits n (f * 10 - real_of_int \<lfloor>f * 10\<rfloor>))"

definition numberToString :: "jsnum \<Rightarrow> jsstring" where
  "numberToString x =
     (case x of
        NaN \<Rightarrow> js ''NaN''
      | PInf \<Rightarrow> js ''Infinity''
      | NInf \<Rightarrow> js ''-Infinity''
      | Fin v \<Rightarrow>
          let a = \<bar>v\<bar>; ip = nat \<lfloor>a\<rfloor>;
              fd = fracDigits (Suc (Suc (Suc (Suc (Suc (Suc (Suc (Suc (Suc (Suc (Suc (Suc (Suc (Suc
                     (Suc (Suc (Suc (Suc (Suc (Suc 0)))))))))))))))))))) (a - real ip)
          in (if v < 0 then [45] else []) @ natDigits ip @ (if fd = [] then [] else 46 # fd))"

definition thousandsRe :: regex where
  "thousandsRe = Seq NWordB (Ahead (Seq (Plus (Grp 1 (rep 3 3 digit))) (NAhead digit)))"

text \<open>The grouping of the digits before the point, as the program does it after \<open>toFixed\<close>.\<close>

definition addThousands :: "jsstring \<Rightarrow> jsstring" where
  "addThousands s =
     replaceAll False thousandsRe (js '','') (takeWhile (\<lambda>c. c \<noteq> 46) s) @ dropWhile (\<lambda>c. c \<noteq> 46) s"

text \<open>
  \<open>settings.decimalPlaces === 'auto' ? 2 : parseInt(settings.decimalPlaces || 2)\<close>; the
  settings page offers 0, 2, 3 and 4.
\<close>

definition rangeDecimals :: "settings \<Rightarrow> nat" where
  "rangeDecimals st =
     (if decimalPlaces st = js ''auto'' then 2
      else (case parseInt (if decimalPlaces st = [] then js ''2'' else decimalPlaces st) of
              Fin v \<Rightarrow> nat \<lfloor>v\<rfloor> | _ \<Rightarrow> 0))"

text \<open>\<open>convertPriceRange\<close> (content.js).\<close>

definition convertPriceRange :: "env \<Rightarrow> rangeData \<Rightarrow> jsstring \<Rightarrow> jsstring option" where
  "convertPriceRange env r targetCurrency =
     (if \<not> rate_ok (exchangeRates env) (currency r) \<or> \<not> rate_ok (exchangeRates env) targetCurrency
      then None
      else
        let sourceRate = the (exchangeRates env (currency r));
            targetRate = the (exchangeRates env targetCurrency);
            convertedMin = jsmul (jsdiv (minPrice r) sourceRate) targetRate;
            convertedMax = jsmul (jsdiv (maxPrice r) sourceRate) targetRate;
            decimals = rangeDecimals (userSettings env);
            formattedMin = (if useThousandSeparator (userSettings env)
                            then addThousands (toFixed convertedMin decimals)
                            else toFixed convertedMin decimals);
            formattedMax = (if useThousandSeparator (userSettings env)
                            then addThousands (toFixed convertedMax decimals)
                            else toFixed convertedMax decimals);
            targetSymbol = getCurrencySymbol targetCurrency
        in Some (targetSymbol @ formattedMin @ separator r @ targetSymbol @ formattedMax
                 @ js '' '' @ targetCurrency))"

definition fullCodePattern :: regex where
  "fullCodePattern =
     seqs [WordB, Grp 1 (alts (map lits validationCodes)), Plus space,
           Plus (Set [CDigit, CC 46, CC 44])]"

definition shortCodeWithSymbolPattern :: regex where
  "shortCodeWithSymbolPattern =
     seqs [WordB,
           Grp 1 (alts [lits ''US'', lits ''HK'', lits ''AU'', lits ''CA'', lits ''NZ'', lits ''SG'',
                        lits ''C'', lits ''A'', lits ''S'']),
           Star space, Set symbols8]"

definition spaceAfterSymbolRe :: regex where
  "spaceAfterSymbolRe = seqs [Set symbols8, Plus space, digit]"

text \<open>\<open>generateConvertedText\<close> (content.js).\<close>

definition generateConvertedText :: "jsstring \<Rightarrow> jsnum \<Rightarrow> jsstring \<Rightarrow> jsstring" where
  "generateConvertedText originalPrice convertedAmount targetCurrency =
     (let targetSymbol = getCurrencySymbol targetCurrency;
          leadingSpace = takeWhile isSpaceC originalPrice;
          trailingSpace = rev (takeWhile isSpaceC (rev originalPrice));
          trimmedPrice = trim originalPrice;
          hasFullCode = test True fullCodePattern trimmedPrice;
          hasShortCodeWithSymbol = test True shortCodeWithSymbolPattern trimmedPrice;
          hasSymbol = test False (Set symbols8) trimmedPrice;
          spacer = (if test False spaceAfterSymbolRe trimmedPrice then js '' '' else []);
          result =
            (if hasFullCode \<and> \<not> hasSymbol
             then targetCurrency @ js '' '' @ toFixed convertedAmount 2
             else if hasShortCodeWithSymbol
             then targetCurrency @ js '' '' @ targetSymbol @ spacer @ toFixed convertedAmount 2
             else targetSymbol @ spacer @ toFixed convertedAmount 2)
      in leadingSpace @ result @ trailingSpace)"

section \<open>Writing to the document\<close>

fun updateAt :: "(node \<Rightarrow> node) \<Rightarrow> node \<Rightarrow> path \<Rightarrow> node" where
  "updateAt f n [] = f n"
| "updateAt f n (i # p) =
     (case n of TextNode s \<Rightarrow> n
      | Element d cs \<Rightarrow> if i < length cs then Element d (cs[i := updateAt f (cs ! i) p]) else n)"

definition assocSet :: "jsstring \<Rightarrow> jsstring \<Rightarrow> (jsstring \<times> jsstring) list \<Rightarrow> (jsstring \<times> jsstring) list" where
  "assocSet k v xs =
     (if k \<in> set (map fst xs) then map (\<lambda>(a, b). if a = k then (a, v) else (a, b)) xs
      else xs @ [(k, v)])"

definition onElement :: "(edata \<Rightarrow> node list \<Rightarrow> node) \<Rightarrow> node \<Rightarrow> node" where
  "onElement f n = (case n of TextNode s \<Rightarrow> n | Element d cs \<Rightarrow> f d cs)"

text \<open>Assigning an attribute, among them \<open>element.title\<close> and the keys of \<open>dataset\<close>.\<close>

definition setAttribute :: "node \<Rightarrow> path \<Rightarrow> string \<Rightarrow> jsstring \<Rightarrow> node" where
  "setAttribute doc p name v =
     updateAt (onElement (\<lambda>d cs. Element (d\<lparr>attrs := assocSet (js name) v (attrs d)\<rparr>) cs)) doc p"

text \<open>Assigning a property of \<open>element.style\<close>.\<close>

definition setStyle :: "node \<Rightarrow> path \<Rightarrow> string \<Rightarrow> jsstring \<Rightarrow> node" where
  "setStyle doc p prop v =
     updateAt (onElement (\<lambda>d cs. Element (d\<lparr>istyle := assocSet (js prop) v (istyle d)\<rparr>) cs)) doc p"

text \<open>Assigning \<open>element.textContent\<close>: the children are replaced by one text node.\<close>

definition setTextContent :: "node \<Rightarrow> path \<Rightarrow> jsstring \<Rightarrow> node" where
  "setTextContent doc p v =
     updateAt (onElement (\<lambda>d cs. Element d (if v = [] then [] else [TextNode v]))) doc p"

definition dataAttr :: "node \<Rightarrow> path \<Rightarrow> string \<Rightarrow> jsstring option" where
  "dataAttr doc p name = (case elementAt doc p of None \<Rightarrow> None | Some d \<Rightarrow> getAttribute d name)"

text \<open>The border colour of \<open>getHighlightColors\<close> (content.js).\<close>

definition highlightBorderColor :: "jsstring \<Rightarrow> jsstring" where
  "highlightBorderColor theme =
     (if theme = js ''dark'' then js ''#43b581''
      else if theme = js ''vibrant'' then js ''#f59e0b''
      else if theme = js ''minimal'' then js ''#6b7280''
      else if theme = js ''professional'' then js ''#3b82f6''
      else js ''#7c3aed'')"

fun jsless :: "jsnum \<Rightarrow> jsnum \<Rightarrow> bool" where
  "jsless NaN _ = False"
| "jsless _ NaN = False"
| "jsless (Fin x) (Fin y) = (x < y)"
| "jsless (Fin x) PInf = True"
| "jsless (Fin x) NInf = False"
| "jsless NInf (Fin y) = True"
| "jsless NInf PInf = True"
| "jsless NInf NInf = False"
| "jsless PInf _ = False"

text \<open>
  \<open>getPreservedStyles\<close> (content.js): the largest font size among the element and its
  \<open>span\<close>, \<open>div\<close>, \<open>strong\<close> and \<open>b\<close> descendants, with the colour and weight found
  there.
\<close>

fun largestFont :: "jsnum \<times> jsstring \<times> jsstring \<Rightarrow> node list \<Rightarrow> jsnum \<times> jsstring \<times> jsstring" where
  "largestFont acc [] = acc"
| "largestFont (largest, col, weight) (n # ns) =
     (case nodeData n of
        None \<Rightarrow> largestFont (largest, col, weight) ns
      | Some d \<Rightarrow>
          let f0 = parseFloat (fontSize (computed d));
              childFontSize = (if truthy f0 then f0 else Fin 0)
          in if jsless largest childFontSize
             then largestFont (childFontSize, color (computed d), fontWeight (computed d)) ns
             else largestFont (largest, col, weight) ns)"

definition getPreservedStyles :: "node \<Rightarrow> (string \<times> jsstring) list" where
  "getPreservedStyles el =
     (case nodeData el of
        None \<Rightarrow> []
      | Some d \<Rightarrow>
          let c = computed d;
              f0 = parseFloat (fontSize c);
              children = filter (\<lambda>n. case nodeData n of None \<Rightarrow> False
                                      | Some cd \<Rightarrow> tagName cd \<in> set (map js [''SPAN'', ''DIV'', ''STRONG'', ''B'']))
                           (descendants el)
          in (case largestFont (if truthy f0 then f0 else Fin 12, color c, fontWeight c) children of
                (largest, col, weight) \<Rightarrow>
                  [(''color'', col), (''fontSize'', numberToString largest @ js ''px''),
                   (''fontWeight'', weight), (''fontFamily'', fontFamily c),
                   (''lineHeight'', lineHeight c), (''letterSpacing'', letterSpacing c),
                   (''textDecoration'', textDecoration c), (''textTransform'', textTransform c)]))"

text \<open>\<open>applyPreservedStyles\<close> (content.js).\<close>

definition applyPreservedStyles :: "node \<Rightarrow> path \<Rightarrow> (string \<times> jsstring) list \<Rightarrow> node" where
  "applyPreservedStyles doc p styles = foldl (\<lambda>acc (prop, v). setStyle acc p prop v) doc styles"

text \<open>
  \<open>applyConversion\<close> (content.js), with the style assignment of
  \<open>setupPriceContextMenu\<close>; the event listener that the latter installs is not part of the
  model.
\<close>

definition applyConversion :: "env \<Rightarrow> node \<Rightarrow> path \<Rightarrow> jsnum \<Rightarrow> jsstring \<Rightarrow> jsnum \<Rightarrow> jsstring \<Rightarrow> node" where
  "applyConversion env doc0 p amount sourceCurrency convertedAmount targetCurrency =
     (let st = userSettings env;
          doc1 = (if firstTruthy [dataAttr doc0 p ''data-original-price''] = None
                  then setAttribute doc0 p ''data-original-price'' (textAt doc0 p) else doc0);
          originalPrice = (case firstTruthy [dataAttr doc1 p ''data-original-price''] of
                             Some v \<Rightarrow> v | None \<Rightarrow> textAt doc1 p);
          convertedText = generateConvertedText originalPrice convertedAmount targetCurrency;
          doc2 = setAttribute doc1 p ''data-converted'' (js ''true'');
          doc3 = setAttribute doc2 p ''data-source-currency'' sourceCurrency;
          doc4 = setAttribute doc3 p ''data-source-amount'' (numberToString amount);
          doc5 = setAttribute doc4 p ''data-target-amount'' (toFixed convertedAmount 2);
          doc6 = setAttribute doc5 p ''data-converted-text'' convertedText;
          doc7 =
            (if replacePrice st then
               (let originalStyles = (case nodeAt doc6 p of None \<Rightarrow> [] | Some el \<Rightarrow> getPreservedStyles el);
                    d1 = setTextContent doc6 p convertedText;
                    normalizedOriginal = trim (collapseSpaces (optStr (dataAttr d1 p ''data-original-price'')));
                    d2 = setAttribute d1 p ''title''
                           (js ''Original: '' @ normalizedOriginal @ js '' ('' @ sourceCurrency @ js '')'');
                    d3 = applyPreservedStyles d2 p originalStyles
                in if highlightPrices st
                   then setStyle d3 p ''borderBottom''
                          (js ''1px dotted '' @ highlightBorderColor (currentTheme env))
                   else d3)
             else
               (let d1 = (if showInlineConversion st then
                            (let normalizedText = trim (collapseSpaces convertedText)
                             in setAttribute doc6 p ''title''
                                  (if startsWith normalizedText targetCurrency then normalizedText
                                   else normalizedText @ js '' '' @ targetCurrency))
                          else doc6)
                in if highlightPrices st
                   then setStyle (setStyle d1 p ''borderBottom''
                                   (js ''2px dotted '' @ highlightBorderColor (currentTheme env)))
                          p ''cursor'' (js ''help'')
                   else d1))
      in if \<not> replacePrice st then setStyle doc7 p ''cursor'' (js ''context-menu'') else doc7)"

text \<open>
  What both passes of \<open>convertPrices\<close> write for a price range: the data attributes, then
  the replacement or the tooltip.
\<close>

definition applyRange :: "env \<Rightarrow> node \<Rightarrow> path \<Rightarrow> jsstring \<Rightarrow> rangeData \<Rightarrow> jsstring \<Rightarrow> node" where
  "applyRange env doc0 p text r convertedRange =
     (let st = userSettings env;
          normalizedOriginal = trim (collapseSpaces text);
          doc1 = setAttribute doc0 p ''data-converted'' (js ''true'');
          doc2 = setAttribute doc1 p ''data-original-price'' normalizedOriginal;
          doc3 = setAttribute doc2 p ''data-source-currency'' (currency r);
          doc4 = setAttribute doc3 p ''data-is-range'' (js ''true'');
          doc5 = setAttribute doc4 p ''data-range-min'' (numberToString (minPrice r));
          doc6 = setAttribute doc5 p ''data-range-max'' (numberToString (maxPrice r));
          doc7 = setAttribute doc6 p ''data-converted-text'' convertedRange
      in if replacePrice st then
           setAttribute (setTextContent doc7 p convertedRange) p ''title''
             (js ''Original: '' @ normalizedOriginal)
         else if showInlineConversion st then
           (let d1 = setAttribute doc7 p ''title'' (trim (collapseSpaces convertedRange))
            in if highlightPrices st
               then setStyle (setStyle d1 p ''borderBottom''
                               (js ''2px dotted '' @ highlightBorderColor (currentTheme env)))
                      p ''cursor'' (js ''help'')
               else d1)
         else doc7)"

section \<open>The scan\<close>

text \<open>
  The state of a scan: the document, the set \<open>processedElements\<close>, and the two counters of
  \<open>convertPrices\<close>.
\<close>

record scan =
  document :: node
  processedElements :: "path set"
  converted :: nat
  skipped :: nat

definition amazonClasses :: "string list" where
  "amazonClasses = [''a-price-symbol'', ''a-price-whole'', ''a-price-fraction'', ''a-price-decimal'']"

definition stylePatterns :: "string list" where
  "stylePatterns = [''currency-symbol:'', ''is-price-power:'', ''decimal_point:'', ''comma_style:'',
                    ''show-decimal:'', ''symbol_position:'']"

definition containerClasses :: "string list" where
  "containerClasses = [''k7_gz'', ''k7_lu'', ''kr_lo'', ''_3Mpbo'']"

definition smallSpanRe :: regex where
  "smallSpanRe = seqs [Bol, Plus (Set ([CDigit, CC 46] @ symbols8 @ [CC 44, CC 46])), Eol]"

definition fragmentCurrencyRe :: regex where
  "fragmentCurrencyRe =
     alts [Set symbols8, lits ''USD'', lits ''EUR'', lits ''GBP'', lits ''ILS'', lits ''JPY'',
           lits ''CNY'', seqs [lits ''US'', Star space, Chr 36]]"

text \<open>
  The detection of a fragmented price in the selector pass: the text to go on with, and the
  flag \<open>isFragmentedPrice\<close>.
\<close>

definition fragmentStage :: "node \<Rightarrow> path \<Rightarrow> jsstring \<Rightarrow> jsstring \<times> bool" where
  "fragmentStage doc p text =
     (case nodeAt doc p of
        Some (Element d cs) \<Rightarrow>
          (let el = Element d cs; spans = childSpans el in
           if 2 \<le> length spans then
             (let hasAmazonPriceStructure =
                    list_ex (\<lambda>n. case nodeData n of None \<Rightarrow> False
                                 | Some nd \<Rightarrow> list_ex (classListContains nd) amazonClasses)
                      (descendants el);
                  hasAliExpressMetadata =
                    list_ex (\<lambda>n. list_ex (\<lambda>pat. includesStr (spanStyle n) (js pat)) stylePatterns) spans;
                  hasAliExpressContainer =
                    list_ex (\<lambda>cls. includesStr (className d) (js cls)) containerClasses;
                  hasSmallSpans =
                    list_ex (\<lambda>n. length (trim (textContent n)) \<le> 3
                                 \<and> test False smallSpanRe (trim (textContent n))) spans;
                  hasCurrencySymbol = test False fragmentCurrencyRe text
              in if (hasAmazonPriceStructure \<or> hasAliExpressMetadata \<or> hasAliExpressContainer
                     \<or> hasSmallSpans) \<and> hasCurrencySymbol
                 then (case firstTruthy [extractFragmentedPrice doc p] of
                         Some fragmentedPrice \<Rightarrow> (fragmentedPrice, True)
                       | None \<Rightarrow> (text, True))
                 else (text, False))
           else (text, False))
      | _ \<Rightarrow> (text, False))"

text \<open>The text that is scored: the fragmented or normalised text, or the one put together
  from the siblings.\<close>

definition candidateText :: "node \<Rightarrow> path \<Rightarrow> jsstring \<Rightarrow> jsstring" where
  "candidateText doc p text =
     (case assembleCrossElementPrice doc p of
        Some assembledPrice \<Rightarrow> assembledPrice
      | None \<Rightarrow> fst (fragmentStage doc p text))"

text \<open>
  The price text after the handling of a second currency and of quantities; \<open>None\<close> for
  a bulk offer, which is skipped.
\<close>

definition pricedText :: "jsstring \<Rightarrow> jsstring option" where
  "pricedText text =
     (let t1 = (case detectMultiCurrency text of Some primaryPrice \<Rightarrow> primaryPrice | None \<Rightarrow> text)
      in case detectQuantityPricing t1 of
           BulkOffer \<Rightarrow> None
         | QuantityPrice priceText \<Rightarrow> Some priceText
         | NotQuantity \<Rightarrow> Some t1)"

definition countSkipped :: "scan \<Rightarrow> scan \<times> bool" where
  "countSkipped s = (s\<lparr>skipped := skipped s + 1\<rparr>, False)"

text \<open>
  The end of both loop bodies: amount, conversion, \<open>applyConversion\<close>, the processed set
  and the counter. The flag tells that the step ended at the test of the limit of 100.
\<close>

definition convertAmount :: "env \<Rightarrow> scan \<Rightarrow> path \<Rightarrow> jsstring \<Rightarrow> jsstring \<Rightarrow> scan \<times> bool" where
  "convertAmount env s p text sourceCurrency =
     (let target = defaultTargetCurrency (userSettings env) in
      case extractAmount (document s) text sourceCurrency (Some p) of
        None \<Rightarrow> (s, False)
      | Some amount \<Rightarrow>
          if \<not> truthy amount \<or> jsle amount 0 \<or> jsgt amount 1000000000 then (s, False)
          else
            (case calculateConversion (exchangeRates env) amount sourceCurrency target of
               None \<Rightarrow> (s, False)
             | Some convertedAmount \<Rightarrow>
                 if \<not> truthy convertedAmount then (s, False)
                 else (s\<lparr>document := applyConversion env (document s) p amount sourceCurrency
                                        convertedAmount target,
                         processedElements := insert p (processedElements s),
                         converted := converted s + 1\<rparr>, True)))"

text \<open>The selector pass after the confidence gate.\<close>

definition afterGate :: "env \<Rightarrow> scan \<Rightarrow> path \<Rightarrow> jsstring \<Rightarrow> scan \<times> bool" where
  "afterGate env s p text =
     (case pricedText text of
        None \<Rightarrow> countSkipped s
      | Some t \<Rightarrow>
          if isShippingCost (document s) p then countSkipped s
          else if fst (detectSalePrice (document s) p) \<and> 50 < snd (detectSalePrice (document s) p)
          then countSkipped s
          else
            (case detectCurrency (pageCurrency env) (document s) (Some p) t of
               None \<Rightarrow> (s, False)
             | Some sourceCurrency \<Rightarrow>
                 if sourceCurrency = defaultTargetCurrency (userSettings env) then countSkipped s
                 else
                   convertAmount env s p
                     (case detectPriceRange (pageCurrency env) t of
                        Some priceRange \<Rightarrow>
                          numberToString (minPrice priceRange) @ js '' ''
                          @ (if currency priceRange \<noteq> [] then currency priceRange else sourceCurrency)
                      | None \<Rightarrow> t)
                     sourceCurrency))"

text \<open>The selector pass for an element that is not converted as a range.\<close>

definition singlePrice :: "env \<Rightarrow> scan \<Rightarrow> path \<Rightarrow> jsstring \<Rightarrow> scan \<times> bool" where
  "singlePrice env s p original =
     (let text = normalizePriceText original in
      if text = [] then (s, False)
      else
        let isFragmentedPrice = snd (fragmentStage (document s) p text);
            text2 = candidateText (document s) p text;
            elementScore = scorePriceElement env (document s) p text2
        in if \<not> isFragmentedPrice \<and> elementScore < 60 then countSkipped s
           else afterGate env s p text2)"

text \<open>
  The body of the loop over \<open>priceElements\<close> in \<open>convertPrices\<close> (content.js). A path
  that leads to no element stands for a node that an earlier replacement removed from the
  document; the program goes on to process such a detached node, the model passes over it.
\<close>

definition selectorStep :: "env \<Rightarrow> scan \<Rightarrow> path \<Rightarrow> scan \<times> bool" where
  "selectorStep env s p =
     (if p \<in> processedElements s then (s, False)
      else
        (case elementAt (document s) p of
           None \<Rightarrow> (s, False)
         | Some d \<Rightarrow>
             if getAttribute d ''data-converted'' = Some (js ''true'') then (s, False)
             else
               let original = textAt (document s) p;
                   target = defaultTargetCurrency (userSettings env)
               in if original = [] \<or> 150 < length original then (s, False)
                  else
                    (case detectPriceRange (pageCurrency env) original of
                       None \<Rightarrow> singlePrice env s p original
                     | Some r \<Rightarrow>
                         if currency r \<noteq> [] \<and> currency r \<noteq> target then
                           (case convertPriceRange env r target of
                              Some convertedRange \<Rightarrow>
                                (s\<lparr>document := applyRange env (document s) p original r convertedRange,
                                   processedElements := insert p (processedElements s),
                                   converted := converted s + 1\<rparr>, False)
                            | None \<Rightarrow> singlePrice env s p original)
                         else (s\<lparr>processedElements := insert p (processedElements s),
                                 skipped := skipped s + 1\<rparr>, False))))"

text \<open>The loop: it ends early once a conversion has brought the counter to 100.\<close>

fun selectorPass :: "env \<Rightarrow> scan \<Rightarrow> path list \<Rightarrow> scan" where
  "selectorPass env s [] = s"
| "selectorPass env s (p # ps) =
     (case selectorStep env s p of
        (s', atLimitTest) \<Rightarrow>
          if atLimitTest \<and> 100 \<le> converted s' then s' else selectorPass env s' ps)"

text \<open>The text nodes of the document in document order, as paths.\<close>

fun textPaths :: "node \<Rightarrow> path list" and textPathsList :: "nat \<Rightarrow> node list \<Rightarrow> path list" where
  "textPaths (TextNode s) = [[]]"
| "textPaths (Element d cs) = textPathsList 0 cs"
| "textPathsList i [] = []"
| "textPathsList i (c # cs) = map ((#) i) (textPaths c) @ textPathsList (Suc i) cs"

text \<open>\<open>HAS_CURRENCY_REGEX\<close> (lib/regex.js).\<close>

definition HAS_CURRENCY_REGEX :: regex where
  "HAS_CURRENCY_REGEX =
     Alt (Set (symbols14 @ [CC 122, CC 322, CC 75, CC 269, CC 70, CC 116, CC 108, CC 101, CC 105]))
         (seqs [WordB, alts (map lits currencyCodes), WordB])"

text \<open>The filter of the tree walker of the second strategy.\<close>

definition acceptNode :: "scan \<Rightarrow> path \<Rightarrow> bool" where
  "acceptNode s tp =
     (case parentElement tp of
        None \<Rightarrow> False
      | Some parent \<Rightarrow>
          (case elementAt (document s) parent of
             None \<Rightarrow> False
           | Some d \<Rightarrow>
               if toLowerCase (tagName d) \<in> set (map js [''script'', ''style'', ''noscript''])
               then False
               else if parent \<in> processedElements s then False
               else if getAttribute d ''data-converted'' = Some (js ''true'') then False
               else
                 let text = trim (textAt (document s) tp)
                 in test True HAS_CURRENCY_REGEX text \<and> test False digit text))"

text \<open>The body of the loop over the collected text nodes.\<close>

definition textNodeStep :: "env \<Rightarrow> scan \<Rightarrow> path \<Rightarrow> scan \<times> bool" where
  "textNodeStep env s tp =
     (case parentElement tp of
        None \<Rightarrow> (s, False)
      | Some parent \<Rightarrow>
          if parent \<in> processedElements s then (s, False)
          else
            (case elementAt (document s) parent of
               None \<Rightarrow> (s, False)
             | Some d \<Rightarrow>
                 if getAttribute d ''data-converted'' = Some (js ''true'') then (s, False)
                 else
                   let text = trim (textAt (document s) tp);
                       target = defaultTargetCurrency (userSettings env);
                       single =
                         (case detectCurrency (pageCurrency env) (document s) (Some parent) text of
                            None \<Rightarrow> (s, False)
                          | Some sourceCurrency \<Rightarrow>
                              if sourceCurrency = target then countSkipped s
                              else convertAmount env s parent text sourceCurrency)
                   in (case detectPriceRange (pageCurrency env) text of
                         None \<Rightarrow> single
                       | Some r \<Rightarrow>
                           if currency r = target
                           then (s\<lparr>processedElements := insert parent (processedElements s),
                                   skipped := skipped s + 1\<rparr>, False)
                           else
                             (case convertPriceRange env r target of
                                Some convertedRange \<Rightarrow>
                                  (s\<lparr>document := applyRange env (document s) parent text r convertedRange,
                                     processedElements := insert parent (processedElements s),
                                     converted := converted s + 1\<rparr>, False)
                              | None \<Rightarrow> single))))"

fun textNodeLoop :: "env \<Rightarrow> scan \<Rightarrow> path list \<Rightarrow> scan" where
  "textNodeLoop env s [] = s"
| "textNodeLoop env s (tp # tps) =
     (case textNodeStep env s tp of
        (s', atLimitTest) \<Rightarrow>
          if atLimitTest \<and> 100 \<le> converted s' then s' else textNodeLoop env s' tps)"

text \<open>The second strategy: at most 100 accepted text nodes, and only below 100 conversions.\<close>

definition textNodePass :: "env \<Rightarrow> scan \<Rightarrow> scan" where
  "textNodePass env s =
     (if converted s < 100
      then textNodeLoop env s (take 100 (filter (acceptNode s) (textPaths (document s))))
      else s)"

text \<open>
  \<open>convertPrices\<close> (content.js) from pass 14 on. The thirteen detection passes that run
  before are functions of their own; what they leave behind is the state the model starts
  from: the document, the processed set and the counters. \<open>priceElements\<close> are the elements
  that match the selectors of the site, in document order.
\<close>

definition convertPrices :: "env \<Rightarrow> scan \<Rightarrow> path list \<Rightarrow> scan" where
  "convertPrices env s priceElements = textNodePass env (selectorPass env s priceElements)"

section \<open>Example documents\<close>

text \<open>
  The container of the fragmentation example:
  \<open><div><span>US $</span><span>134</span><span>.</span><span>98</span></div>\<close>.
\<close>

definition fragmentContainer :: node where
  "fragmentContainer =
     plainElement ''DIV'' []
       [plainElement ''SPAN'' [] [TextNode (js ''US $'')],
        plainElement ''SPAN'' [] [TextNode (js ''134'')],
        plainElement ''SPAN'' [] [TextNode (js ''.'')],
        plainElement ''SPAN'' [] [TextNode (js ''98'')]]"

text \<open>
  The settings and globals of the examples: the target currency is ILS, a conversion is shown
  as a tooltip, and the rates are those of the built-in table.
\<close>

definition settingsILS :: settings where
  "settingsILS = \<lparr>defaultTargetCurrency = js ''ILS'', highlightPrices = False,
     showInlineConversion = True, replacePrice = False, decimalPlaces = js ''auto'',
     useThousandSeparator = True\<rparr>"

definition envILS :: env where
  "envILS = \<lparr>exchangeRates = rates_default, userSettings = settingsILS, pageCurrency = None,
     currentTheme = js ''chrome-dark'', innerHeight = 800\<rparr>"

text \<open>The state in which a scan starts when nothing was converted before.\<close>

definition newScan :: "node \<Rightarrow> scan" where
  "newScan d = \<lparr>document = d, processedElements = {}, converted = 0, skipped = 0\<rparr>"

text \<open>The page \<open><body><span class="price">$49</span></body>\<close>.\<close>

definition pricePage :: node where
  "pricePage = plainElement ''BODY'' [] [plainElement ''SPAN'' [(''class'', ''price'')] [TextNode (js ''$49'')]]"


text \<open>A page with the container of the fragmentation example.\<close>

definition fragmentPage :: node where
  "fragmentPage = plainElement ''BODY'' [] [fragmentContainer]"

section \<open>Evaluation\<close>

text \<open>The equations that run the patterns and the string functions on a given text.\<close>

lemmas re_defs = seqs_def alts_def lits_def Opt_def Plus_def digit_def space_def class_has_def
  isDigitC_def isSpaceC_def isWordC_def upperC_def lowerOne_def atWordB_def
  symbols14_def symbols13_def symbols8_def rep.simps upto_rep.simps greplace.simps gmatches.simps

lemmas str_defs = js_def trim_def toLowerCase_def toUpperCase_def lowerC_def match_def test_def
  grp_def replaceAll_def replaceFirst_def

lemmas cur_defs = detectCurrencyText_def codeCurrency_def nameCurrency_def symbolCurrency_def
  codeMatchRe_def currencyCodes_def currencyNames_def symbolTable_def collapseSpaces_def
  dollarFamily_def

lemmas amt_defs = extractAmount_def normalizePriceText_def pricePrefixRe_def priceSuffixRe_def
  abbreviatedAmount_def abbreviatedRe_def abbreviatedCodes_def amountPatterns_def amountBody_def
  currencyCodes_def amountOfMatch_def detectDecimalSeparator_def leadingDigits_def parseFloat_def
  exponentPart_def digitsVal_def europeanCurrencies_def

lemmas frag_defs = extractFragmentedPrice_def fragmentedFromSpans_def childSpans_def isPriceTag_def
  collectFragments_def validFragmentPattern_def digitsOnlyRe_def currencyFragmentRe_def
  hasCurrencyMetadata_def spanStyle_def cleanupReconstructed_def normalizePriceText_def
  pricePrefixRe_def priceSuffixRe_def getAttribute_def

lemmas doc_defs = plainElement_def plainStyle_def smallRect_def

lemmas score_defs = scorePriceElement_def isProbablyPrice_def rejected_def phoneRe_def yearRe_def
  percentCurrencyRe_def productCodeRe_def dimensionRe_def validationCodes_def hasCurrencyRe_def
  codeAmountRe_def classKeywordRe_def priceContextKeywords_def numMatchRe_def decimalRe_def
  perfectPriceRe_def classAndId_def parentTextLower_def clampScore_def analyzeVisualContext_def
  greenRe_def redRe_def analyzeSemanticHTML_def ariaPriceRe_def buyButtonRe_def attrTruthy_def
  contextScore_def buyNowRe_def productClassRe_def structScore_def parentHasPriceClass_def
  weightedScore_def mathRound_def className_def elemId_def classListContains_def
  getAttribute_def elementAt_def textAt_def parentElement_def parseFloat_def parseInt_def
  exponentPart_def digitsVal_def

lemmas gate_defs = fragmentStage_def candidateText_def assembleCrossElementPrice_def childNodes_def
  loneSymbolRe_def decimalPartRe_def childSpans_def isPriceTag_def normalizePriceText_def
  pricePrefixRe_def priceSuffixRe_def

section \<open>Capture groups and price ranges\<close>

text \<open>
  A match only records groups of the pattern, and of the two alternatives of a range pattern
  only those of the alternative that matched. \<open>detectPriceRange\<close> reads the lower and
  the upper price from the groups 3 and 6, 8 and 9, while the symbol alternative has the groups
  1 to 4 and the code alternative the groups 5 to 8: one of the two prices is always
  \<open>undefined\<close>, and the function answers \<open>{ isRange: false }\<close> for every text.
\<close>

lemma subset_chain: "A \<subseteq> D \<union> B \<Longrightarrow> B \<subseteq> C \<union> E \<Longrightarrow> A \<subseteq> (C \<union> D) \<union> E"
  by blast

lemma subset_chain_star: "A \<subseteq> C \<union> B \<Longrightarrow> B \<subseteq> C \<union> E \<Longrightarrow> A \<subseteq> C \<union> E"
  by blast

lemma rm_caps_keys:
  "x \<in> set (rm ci re b r c) \<Longrightarrow> fst ` set (snd (snd x)) \<subseteq> groups re \<union> fst ` set c"
proof (induction ci re b r c arbitrary: x rule: rm.induct)
  case (5 ci p q b r c)
  from "5.prems" obtain b' r' c' where y: "(b', r', c') \<in> set (rm ci p b r c)"
    and x: "x \<in> set (rm ci q b' r' c')"
    by auto
  from "5.IH"(1) [OF y] have k1: "fst ` set c' \<subseteq> groups p \<union> fst ` set c"
    by simp
  from "5.IH"(2) [OF y refl refl x]
  have "fst ` set (snd (snd x)) \<subseteq> groups q \<union> fst ` set c'" .
  from subset_chain [OF this k1] show ?case by (simp only: groups.simps)
next
  case (6 ci p q b r c)
  from "6.prems" consider "x \<in> set (rm ci p b r c)" | "x \<in> set (rm ci q b r c)"
    by auto
  then show ?case
  proof cases
    case 1
    from "6.IH"(1) [OF this] show ?thesis by auto
  next
    case 2
    from "6.IH"(2) [OF this] show ?thesis by auto
  qed
next
  case (7 ci p b r c)
  from "7.prems" have "x \<in> set (concat (map (\<lambda>(b', r', c').
          if length r' < length r then rm ci (Star p) b' r' c' else []) (rm ci p b r c)) @ [(b, r, c)])"
    by (subst (asm) rm.simps(7))
  then consider (iter) b' r' c' where "(b', r', c') \<in> set (rm ci p b r c)"
      "length r' < length r" "x \<in> set (rm ci (Star p) b' r' c')"
    | (stop) "x = (b, r, c)"
    by (auto simp del: rm.simps split: if_splits)
  then show ?case
  proof cases
    case iter
    from "7.IH"(1) [OF iter(1)] have k1: "fst ` set c' \<subseteq> groups p \<union> fst ` set c"
      by simp
    from "7.IH"(2) [OF iter(1) refl refl iter(2) iter(3)]
    have "fst ` set (snd (snd x)) \<subseteq> groups (Star p) \<union> fst ` set c'" .
    from subset_chain_star [OF this [unfolded groups.simps] k1] show ?thesis by (simp only: groups.simps)
  next
    case stop
    then show ?thesis by simp
  qed
next
  case (8 ci n p b r c)
  from "8.prems" obtain b' r' c' where y: "(b', r', c') \<in> set (rm ci p b r c)"
    and x: "snd (snd x) = (n, take (length r - length r') r) # c'"
    by auto
  from "8.IH" [OF y] x show ?case by auto
next
  case (13 ci p b r c)
  show ?case
  proof (cases "rm ci p b r c")
    case Nil
    with "13.prems" show ?thesis by simp
  next
    case (Cons y ys)
    obtain b' r' c' where yy: "y = (b', r', c')" by (cases y)
    with Cons "13.prems" have x: "x = (b, r, c')" by simp
    from Cons yy have "(b', r', c') \<in> set (rm ci p b r c)" by simp
    from "13.IH" [OF this] x show ?thesis by simp
  qed
qed (auto split: list.splits if_splits)

lemma rsearch_caps_keys:
  "rsearch ci re b r = Some (b0, m, r', c) \<Longrightarrow> \<exists>b1 r1 x. x \<in> set (rm ci re b1 r1 []) \<and> snd (snd x) = c"
proof (induction ci re b r rule: rsearch.induct)
  case (1 ci re b)
  show ?case
  proof (cases "rm ci re b [] []")
    case Nil
    with "1.prems" show ?thesis by simp
  next
    case (Cons y ys)
    obtain b' r'' c' where yy: "y = (b', r'', c')" by (cases y)
    with Cons "1.prems" have "c = c'" by simp
    moreover from Cons yy have "(b', r'', c') \<in> set (rm ci re b [] [])" by simp
    ultimately show ?thesis by force
  qed
next
  case (2 ci re b x xs)
  show ?case
  proof (cases "rm ci re b (x # xs) []")
    case Nil
    with "2.prems" "2.IH" show ?thesis by simp
  next
    case (Cons y ys)
    obtain b' r'' c' where yy: "y = (b', r'', c')" by (cases y)
    with Cons "2.prems" have "c = c'" by simp
    moreover from Cons yy have "(b', r'', c') \<in> set (rm ci re b (x # xs) [])" by simp
    ultimately show ?thesis by force
  qed
qed

lemma match_alt_keys:
  assumes "match ci (Alt p q) text = Some (m, c)"
  shows "fst ` set c \<subseteq> groups p \<or> fst ` set c \<subseteq> groups q"
proof -
  from assms obtain b0 r' where "rsearch ci (Alt p q) [] text = Some (b0, m, r', c)"
    by (auto simp: match_def split: option.splits)
  from rsearch_caps_keys [OF this] obtain b1 r1 x where
    x: "x \<in> set (rm ci (Alt p q) b1 r1 [])" and c: "snd (snd x) = c"
    by blast
  from x have "x \<in> set (rm ci p b1 r1 []) \<or> x \<in> set (rm ci q b1 r1 [])"
    by auto
  then show ?thesis
    using rm_caps_keys [of x ci p b1 r1 "[]"] rm_caps_keys [of x ci q b1 r1 "[]"] c
    by auto
qed

lemma grp_absent: "n \<notin> fst ` set c \<Longrightarrow> grp c n = None"
  by (simp add: grp_def map_of_eq_None_iff)

lemma groups_seqs: "groups (seqs rs) = (\<Union>r \<in> set rs. groups r)"
  by (induction rs) (auto simp: seqs_def)

lemma groups_rep_upto: "groups (upto_rep n p) \<subseteq> groups p"
  by (induction n p rule: upto_rep.induct) (subst upto_rep.simps, auto simp: Opt_def)

lemma groups_rep: "groups (rep lo hi p) \<subseteq> groups p"
  by (induction lo hi p rule: rep.induct) (subst rep.simps, use groups_rep_upto in auto)

lemma groups_rep_digit [simp]: "groups (rep lo hi (Set cs)) = {}"
  using groups_rep [of lo hi "Set cs"] by simp

lemma groups_alts_lits: "groups (lits s) = {}"
  by (induction s) (auto simp: lits_def)

lemma groups_symbolAlt: "groups (rangeSymbolAlt sep) \<subseteq> {1, 2, 3, 4} \<union> groups sep"
  by (auto simp: rangeSymbolAlt_def groups_seqs Opt_def Plus_def specialCodes_def alts_def
      groups_alts_lits priceNumber_def digit_def space_def)

lemma groups_codeAlt: "groups (rangeCodeAlt sep) \<subseteq> {5, 6, 7, 8} \<union> groups sep"
  by (auto simp: rangeCodeAlt_def groups_seqs Opt_def Plus_def priceNumber_def digit_def space_def)

lemma groups_seps: "groups dashSep = {}" "groups toSep = {}"
  by (auto simp: dashSep_def toSep_def groups_seqs Plus_def dashes_def groups_alts_lits space_def)

lemma rangeComponents_none:
  assumes "fst ` set c \<subseteq> {1, 2, 3, 4} \<or> fst ` set c \<subseteq> {5, 6, 7, 8}"
  shows "\<exists>code symbol a b. rangeComponents c = (code, symbol, a, b) \<and> (a = None \<or> b = None)"
proof -
  have g9: "grp c 9 = None" "grp c 10 = None"
    using assms by (auto intro!: grp_absent)
  from assms show ?thesis
  proof
    assume a: "fst ` set c \<subseteq> {1, 2, 3, 4}"
    then have "grp c 6 = None" "grp c 8 = None"
      by (auto intro!: grp_absent)
    then show ?thesis
      by (simp add: rangeComponents_def)
  next
    assume a: "fst ` set c \<subseteq> {5, 6, 7, 8}"
    then have "grp c 2 = None" "grp c 3 = None"
      by (auto intro!: grp_absent)
    with g9 show ?thesis
      by (simp add: rangeComponents_def)
  qed
qed

lemma range_match_keys:
  assumes "match True PRICE_RANGE_REGEX text = Some (m, c) \<or> match True PRICE_RANGE_TO_REGEX text = Some (m, c)"
  shows "fst ` set c \<subseteq> {1, 2, 3, 4} \<or> fst ` set c \<subseteq> {5, 6, 7, 8}"
proof -
  have sub: "\<And>sep. groups sep = {} \<Longrightarrow> match True (Alt (rangeSymbolAlt sep) (rangeCodeAlt sep)) text = Some (m, c)
      \<Longrightarrow> fst ` set c \<subseteq> {1, 2, 3, 4} \<or> fst ` set c \<subseteq> {5, 6, 7, 8}"
  proof -
    fix sep
    assume e: "groups sep = {}" and mt: "match True (Alt (rangeSymbolAlt sep) (rangeCodeAlt sep)) text = Some (m, c)"
    from match_alt_keys [OF mt] groups_symbolAlt [of sep] groups_codeAlt [of sep] e
    show "fst ` set c \<subseteq> {1, 2, 3, 4} \<or> fst ` set c \<subseteq> {5, 6, 7, 8}"
      by (metis Un_empty_right subset_trans)
  qed
  from assms show ?thesis
    using sub [OF groups_seps(1)] sub [OF groups_seps(2)]
    unfolding PRICE_RANGE_REGEX_def PRICE_RANGE_TO_REGEX_def by blast
qed

lemma detectPriceRange_never: "detectPriceRange pc text = None"
proof (cases "text = []")
  case True
  then show ?thesis by (simp add: detectPriceRange_def)
next
  case False
  show ?thesis
  proof (cases "case match True PRICE_RANGE_REGEX text of
                 Some (m, c) \<Rightarrow> Some (m, c, js ''-'')
               | None \<Rightarrow> map_option (\<lambda>(m, c). (m, c, js ''to''))
                           (match True PRICE_RANGE_TO_REGEX text)")
    case None
    with False show ?thesis by (simp add: detectPriceRange_def)
  next
    case (Some t)
    obtain m c sep where t: "t = (m, c, sep)" by (cases t)
    from Some t have "match True PRICE_RANGE_REGEX text = Some (m, c)
        \<or> match True PRICE_RANGE_TO_REGEX text = Some (m, c)"
      by (auto split: option.splits)
    from rangeComponents_none [OF range_match_keys [OF this]] obtain code symbol a b
      where "rangeComponents c = (code, symbol, a, b)" "a = None \<or> b = None"
      by blast
    with False Some t show ?thesis
      by (auto simp: detectPriceRange_def split: option.splits)
  qed
qed

section \<open>The steps of the scan\<close>

lemma newScan_sel [simp]:
  "document (newScan d) = d" "processedElements (newScan d) = {}"
  "converted (newScan d) = 0" "skipped (newScan d) = 0"
  by (simp_all add: newScan_def)

lemma js_eq_Nil [simp]: "(js s = []) = (s = [])"
  by (simp add: js_def)

lemma selectorStep_reached:
  assumes "p \<notin> processedElements s"
    and "elementAt (document s) p = Some d"
    and "getAttribute d ''data-converted'' \<noteq> Some (js ''true'')"
    and "textAt (document s) p \<noteq> []"
    and "length (textAt (document s) p) \<le> 150"
  shows "selectorStep env s p = singlePrice env s p (textAt (document s) p)"
  using assms by (simp add: selectorStep_def detectPriceRange_never Let_def)

lemma textNodeStep_reached:
  assumes "parentElement tp = Some parent"
    and "parent \<notin> processedElements s"
    and "elementAt (document s) parent = Some d"
    and "getAttribute d ''data-converted'' \<noteq> Some (js ''true'')"
  shows "textNodeStep env s tp =
    (case detectCurrency (pageCurrency env) (document s) (Some parent) (trim (textAt (document s) tp)) of
       None \<Rightarrow> (s, False)
     | Some sourceCurrency \<Rightarrow>
         if sourceCurrency = defaultTargetCurrency (userSettings env) then countSkipped s
         else convertAmount env s parent (trim (textAt (document s) tp)) sourceCurrency)"
  using assms by (simp add: textNodeStep_def detectPriceRange_never Let_def)



section \<open>What a conversion writes\<close>

lemma nodeAt_updateAt:
  "nodeAt (updateAt f doc p) p = map_option f (nodeAt doc p)"
proof (induction p arbitrary: doc)
  case Nil
  show ?case by simp
next
  case (Cons i p)
  show ?case
    by (cases doc) (simp_all add: Cons.IH)
qed

lemma map_of_replace:
  "map_of (map (\<lambda>(a, b). if a = k then (a, v) else (a, b)) xs) k'
     = (if k' = k then map_option (\<lambda>_. v) (map_of xs k) else map_of xs k')"
  by (induction xs) auto

lemma map_of_assocSet:
  "map_of (assocSet k v xs) k' = (if k' = k then Some v else map_of xs k')"
proof (cases "k \<in> set (map fst xs)")
  case True
  then obtain w where "map_of xs k = Some w"
    by (cases "map_of xs k") (auto simp: map_of_eq_None_iff)
  with True show ?thesis by (simp add: assocSet_def map_of_replace)
next
  case False
  then have "map_of xs k = None"
    by (simp add: map_of_eq_None_iff)
  with False show ?thesis
    by (auto simp: assocSet_def map_add_def split: option.splits)
qed

lemma elementAt_setAttribute:
  "elementAt (setAttribute doc p k v) p
     = map_option (\<lambda>d. d\<lparr>attrs := assocSet (js k) v (attrs d)\<rparr>) (elementAt doc p)"
  by (simp add: elementAt_def setAttribute_def nodeAt_updateAt onElement_def
      split: option.splits node.splits)

lemma elementAt_setStyle:
  "elementAt (setStyle doc p k v) p
     = map_option (\<lambda>d. d\<lparr>istyle := assocSet (js k) v (istyle d)\<rparr>) (elementAt doc p)"
  by (simp add: elementAt_def setStyle_def nodeAt_updateAt onElement_def
      split: option.splits node.splits)

lemma elementAt_setTextContent:
  "elementAt (setTextContent doc p v) p = elementAt doc p"
  by (simp add: elementAt_def setTextContent_def nodeAt_updateAt onElement_def
      split: option.splits node.splits)

lemma dataAttr_setAttribute:
  "dataAttr (setAttribute doc p k v) p k'
     = (if elementAt doc p = None then None
        else if js k' = js k then Some v else dataAttr doc p k')"
  by (auto simp: dataAttr_def elementAt_setAttribute getAttribute_def map_of_assocSet
      split: option.splits)

lemma dataAttr_setStyle:
  "dataAttr (setStyle doc p k v) p k' = dataAttr doc p k'"
  by (auto simp: dataAttr_def elementAt_setStyle getAttribute_def split: option.splits)

lemma dataAttr_setTextContent:
  "dataAttr (setTextContent doc p v) p k' = dataAttr doc p k'"
  by (simp add: dataAttr_def elementAt_setTextContent)

lemma elementAt_None_setAttribute:
  "(elementAt (setAttribute doc p k v) p = None) = (elementAt doc p = None)"
  by (simp add: elementAt_setAttribute)

lemma elementAt_None_setStyle:
  "(elementAt (setStyle doc p k v) p = None) = (elementAt doc p = None)"
  by (simp add: elementAt_setStyle)

lemma elementAt_None_setTextContent:
  "(elementAt (setTextContent doc p v) p = None) = (elementAt doc p = None)"
  by (simp add: elementAt_setTextContent)

lemmas attr_simps = dataAttr_setAttribute dataAttr_setStyle dataAttr_setTextContent
  elementAt_None_setAttribute elementAt_None_setStyle elementAt_None_setTextContent

lemma applyPreservedStyles_dataAttr:
  "dataAttr (applyPreservedStyles doc p styles) p k' = dataAttr doc p k'"
  unfolding applyPreservedStyles_def
  by (induction styles arbitrary: doc) (simp_all add: dataAttr_setStyle split: prod.splits)

lemma applyPreservedStyles_elementAt:
  "(elementAt (applyPreservedStyles doc p styles) p = None) = (elementAt doc p = None)"
  unfolding applyPreservedStyles_def
  by (induction styles arbitrary: doc) (simp_all add: elementAt_None_setStyle split: prod.splits)

lemmas applyPreservedStyles_frame = applyPreservedStyles_dataAttr applyPreservedStyles_elementAt

lemma applyConversion_marks:
  assumes "elementAt doc p = Some d"
  shows "dataAttr (applyConversion env doc p amount src convertedAmount target) p ''data-converted''
           = Some (js ''true'')"
proof -
  define Q where "Q x \<longleftrightarrow> elementAt x p \<noteq> None" for x
  define P where "P x \<longleftrightarrow> elementAt x p \<noteq> None
      \<and> dataAttr x p ''data-converted'' = Some (js ''true'')" for x
  have q0: "Q doc"
    using assms by (simp add: Q_def)
  have qa: "\<And>x k v. Q x \<Longrightarrow> Q (setAttribute x p k v)"
    by (simp add: Q_def attr_simps)
  have qif: "\<And>c a b. (c \<Longrightarrow> Q a) \<Longrightarrow> (\<not> c \<Longrightarrow> Q b) \<Longrightarrow> Q (if c then a else b)"
    by simp
  have p0: "\<And>x. Q x \<Longrightarrow> P (setAttribute x p ''data-converted'' (js ''true''))"
    by (auto simp: P_def Q_def attr_simps)
  have pa: "\<And>x k v. P x \<Longrightarrow> js ''data-converted'' \<noteq> js k \<Longrightarrow> P (setAttribute x p k v)"
    by (auto simp: P_def attr_simps)
  have ps: "\<And>x k v. P x \<Longrightarrow> P (setStyle x p k v)"
    by (auto simp: P_def attr_simps)
  have pt: "\<And>x v. P x \<Longrightarrow> P (setTextContent x p v)"
    by (auto simp: P_def attr_simps)
  have pp: "\<And>x styles. P x \<Longrightarrow> P (applyPreservedStyles x p styles)"
    by (simp add: P_def applyPreservedStyles_frame)
  have pif: "\<And>c a b. (c \<Longrightarrow> P a) \<Longrightarrow> (\<not> c \<Longrightarrow> P b) \<Longrightarrow> P (if c then a else b)"
    by simp
  have step: "\<And>R a f. R a \<Longrightarrow> (\<And>x. R x \<Longrightarrow> P (f x)) \<Longrightarrow> P (Let a f)"
    by simp
  have "P (applyConversion env doc p amount src convertedAmount target)"
    unfolding applyConversion_def
    apply (rule step [where R = "\<lambda>_. True"], simp)
    apply (rule step [where R = Q], intro qif qa q0)
    apply (rule step [where R = "\<lambda>_. True"], simp)
    apply (rule step [where R = "\<lambda>_. True"], simp)
    apply (rule step [where R = P], erule p0)
    apply (rule step [where R = P], erule pa, simp add: js_def)
    apply (rule step [where R = P], erule pa, simp add: js_def)
    apply (rule step [where R = P], erule pa, simp add: js_def)
    apply (rule step [where R = P], erule pa, simp add: js_def)
    apply (rule step [where R = P])
     apply (unfold Let_def)
     apply (intro pif ps pt pp pa; (assumption | simp add: js_def))
    apply (intro pif ps; assumption)
    done
  then show ?thesis
    by (simp add: P_def)
qed

lemma applyConversion_target_amount:
  assumes "elementAt doc p = Some d"
  shows "dataAttr (applyConversion env doc p amount src convertedAmount target) p ''data-target-amount''
           = Some (toFixed convertedAmount 2)"
proof -
  define Q where "Q x \<longleftrightarrow> elementAt x p \<noteq> None" for x
  define P where "P x \<longleftrightarrow> elementAt x p \<noteq> None
      \<and> dataAttr x p ''data-target-amount'' = Some (toFixed convertedAmount 2)" for x
  have q0: "Q doc"
    using assms by (simp add: Q_def)
  have qa: "\<And>x k v. Q x \<Longrightarrow> Q (setAttribute x p k v)"
    by (simp add: Q_def attr_simps)
  have qif: "\<And>c a b. (c \<Longrightarrow> Q a) \<Longrightarrow> (\<not> c \<Longrightarrow> Q b) \<Longrightarrow> Q (if c then a else b)"
    by simp
  have p0: "\<And>x. Q x \<Longrightarrow> P (setAttribute x p ''data-target-amount'' (toFixed convertedAmount 2))"
    by (auto simp: P_def Q_def attr_simps)
  have pa: "\<And>x k v. P x \<Longrightarrow> js ''data-target-amount'' \<noteq> js k \<Longrightarrow> P (setAttribute x p k v)"
    by (auto simp: P_def attr_simps)
  have ps: "\<And>x k v. P x \<Longrightarrow> P (setStyle x p k v)"
    by (auto simp: P_def attr_simps)
  have pt: "\<And>x v. P x \<Longrightarrow> P (setTextContent x p v)"
    by (auto simp: P_def attr_simps)
  have pp: "\<And>x styles. P x \<Longrightarrow> P (applyPreservedStyles x p styles)"
    by (simp add: P_def applyPreservedStyles_frame)
  have pif: "\<And>c a b. (c \<Longrightarrow> P a) \<Longrightarrow> (\<not> c \<Longrightarrow> P b) \<Longrightarrow> P (if c then a else b)"
    by simp
  have step: "\<And>R S a f. R a \<Longrightarrow> (\<And>x. R x \<Longrightarrow> S (f x)) \<Longrightarrow> S (Let a f)"
    by simp
  have "P (applyConversion env doc p amount src convertedAmount target)"
    unfolding applyConversion_def
    apply (rule step [where R = "\<lambda>_. True" and S = P], simp)
    apply (rule step [where R = Q and S = P], intro qif qa q0)
    apply (rule step [where R = "\<lambda>_. True" and S = P], simp)
    apply (rule step [where R = "\<lambda>_. True" and S = P], simp)
    apply (rule step [where R = Q and S = P], erule qa)
    apply (rule step [where R = Q and S = P], erule qa)
    apply (rule step [where R = Q and S = P], erule qa)
    apply (rule step [where R = P and S = P], erule p0)
    apply (rule step [where R = P and S = P], erule pa, simp add: js_def)
    apply (rule step [where R = P and S = P])
     apply (unfold Let_def)
     apply (intro pif ps pt pp pa; (assumption | simp add: js_def))
    apply (intro pif ps; assumption)
    done
  then show ?thesis
    by (simp add: P_def)
qed

section \<open>The example pages\<close>

lemma price_normalized: "normalizePriceText (js ''$49'') = js ''$49''"
  by (simp add: gate_defs re_defs str_defs)

lemma price_fragmentStage: "fragmentStage pricePage [0] (js ''$49'') = (js ''$49'', False)"
  by (simp add: gate_defs pricePage_def doc_defs re_defs str_defs)

lemma price_candidate: "candidateText pricePage [0] (js ''$49'') = js ''$49''"
  by (simp add: gate_defs pricePage_def doc_defs re_defs str_defs textAt_def parentElement_def)

lemma price_score: "scorePriceElement envILS pricePage [0] (js ''$49'') = 53"
  by (simp add: score_defs envILS_def pricePage_def doc_defs re_defs str_defs Let_def)

lemma price_element: "elementAt pricePage [0] = Some \<lparr>tagName = js ''SPAN'', attrs = [(js ''class'', js ''price'')], istyle = [],
              computed = plainStyle, bounding = smallRect\<rparr>"
  by (simp add: elementAt_def pricePage_def plainElement_def)

lemma price_text: "textAt pricePage [0] = js ''$49''" "textAt pricePage [0, 0] = js ''$49''"
  by (simp_all add: textAt_def pricePage_def plainElement_def)

lemma price_selectorStep: "selectorStep envILS (newScan pricePage) [0] = countSkipped (newScan pricePage)"
proof -
  have "selectorStep envILS (newScan pricePage) [0] = singlePrice envILS (newScan pricePage) [0] (js ''$49'')"
    using selectorStep_reached [of "[0]" "newScan pricePage" _ envILS] price_element price_text
    by (simp add: newScan_def getAttribute_def js_def)
  also have "\<dots> = countSkipped (newScan pricePage)"
    by (simp add: singlePrice_def price_normalized price_fragmentStage price_candidate price_score newScan_def)
  finally show ?thesis .
qed

lemma price_trim: "trim (js ''$49'') = js ''$49''"
  by (simp add: str_defs re_defs)

lemma price_currency: "detectCurrency None pricePage (Some [0]) (js ''$49'') = Some (js ''USD'')"
  by (simp add: detectCurrency_def elementCurrency_def price_element getAttribute_def parentElement_def
      elementAt_def pricePage_def plainElement_def cur_defs re_defs str_defs)

lemma price_fragmented: "extractFragmentedPrice pricePage [0] = Some (js ''$49'')"
  by (simp add: frag_defs completePriceSymbolRe_def getAllText_def parentElement_def symbolNumberRe_def pricePage_def doc_defs re_defs str_defs Let_def)

lemma price_amount_text: "extractAmount doc (js ''$49'') (js ''USD'') None = Some (Fin 49)"
  by (simp add: amt_defs re_defs str_defs Let_def)

lemma price_amount: "extractAmount pricePage (js ''$49'') (js ''USD'') (Some [0]) = Some (Fin 49)"
  using price_amount_text [of pricePage] by (simp add: extractAmount_def price_fragmented price_normalized Let_def)

lemma price_conversion: "calculateConversion rates_default (Fin 49) (js ''USD'') (js ''ILS'') = Some (Fin (1813 / 10))"
  by (simp add: calculateConversion_def rate_ok_def rates_default_def js_def)

lemma price_accepted: "acceptNode (newScan pricePage\<lparr>skipped := 1\<rparr>) [0, 0]"
  by (simp add: acceptNode_def parentElement_def price_element price_text newScan_def getAttribute_def
      HAS_CURRENCY_REGEX_def currencyCodes_def re_defs str_defs)

lemma price_textPaths: "textPaths pricePage = [[0, 0]]"
  by (simp add: pricePage_def plainElement_def)

lemma price_convertAmount: "convertAmount envILS (newScan pricePage\<lparr>skipped := 1\<rparr>) [0] (js ''$49'') (js ''USD'')
   = (\<lparr>document = applyConversion envILS pricePage [0] (Fin 49) (js ''USD'') (Fin (1813 / 10)) (js ''ILS''),
       processedElements = {[0]}, converted = 1, skipped = 1\<rparr>, True)"
  by (simp add: convertAmount_def newScan_def envILS_def settingsILS_def price_amount price_conversion Let_def)







lemma fragment_element:
  "elementAt fragmentPage [0] = Some \<lparr>tagName = js ''DIV'', attrs = [], istyle = [],
     computed = plainStyle, bounding = smallRect\<rparr>"
  by (simp add: elementAt_def fragmentPage_def fragmentContainer_def plainElement_def)

lemma fragment_text: "textAt fragmentPage [0] = js ''US $134.98''"
  by (simp add: textAt_def fragmentPage_def fragmentContainer_def plainElement_def js_def)

lemma fragment_normalized: "normalizePriceText (js ''US $134.98'') = js ''US $134.98''"
  by (simp add: gate_defs re_defs str_defs)

lemma fragmentStage_small_spans:
  assumes "nodeAt doc p = Some (Element d cs)"
    and "2 \<le> length (childSpans (Element d cs))"
    and "list_ex (\<lambda>n. length (trim (textContent n)) \<le> 3
                     \<and> test False smallSpanRe (trim (textContent n))) (childSpans (Element d cs))"
    and "test False fragmentCurrencyRe text"
  shows "snd (fragmentStage doc p text)"
  using assms by (simp add: fragmentStage_def Let_def split: option.splits)

lemma fragment_spans:
  "map (\<lambda>n. trim (textContent n)) (childSpans fragmentContainer)
     = [js ''US $'', js ''134'', js ''.'', js ''98'']"
  by (simp add: fragmentContainer_def childSpans_def isPriceTag_def doc_defs str_defs isSpaceC_def)

lemma fragment_small:
  "list_ex (\<lambda>t. length t \<le> 3 \<and> test False smallSpanRe t) [js ''US $'', js ''134'', js ''.'', js ''98'']"
  by (simp add: smallSpanRe_def re_defs str_defs)

lemma fragment_symbol: "test False fragmentCurrencyRe (js ''US $134.98'')"
  by (simp add: fragmentCurrencyRe_def re_defs str_defs)

lemma fragment_flag: "snd (fragmentStage fragmentPage [0] (js ''US $134.98''))"
proof -
  obtain d cs where f: "fragmentContainer = Element d cs"
    by (simp add: fragmentContainer_def plainElement_def)
  have n: "nodeAt fragmentPage [0] = Some (Element d cs)"
    by (simp add: fragmentPage_def plainElement_def f)
  have l: "2 \<le> length (childSpans (Element d cs))"
    using arg_cong [OF fragment_spans, of length] by (simp add: f)
  have "list_ex (\<lambda>t. length t \<le> 3 \<and> test False smallSpanRe t)
          (map (\<lambda>n. trim (textContent n)) (childSpans (Element d cs)))"
    using fragment_small fragment_spans by (simp add: f)
  then have "list_ex (\<lambda>n. length (trim (textContent n)) \<le> 3
                     \<and> test False smallSpanRe (trim (textContent n))) (childSpans (Element d cs))"
    by (simp add: list_ex_iff)
  from fragmentStage_small_spans [OF n l this fragment_symbol] show ?thesis .
qed

section \<open>Properties of the conversion engine\<close>




section \<open>Properties of currency detection\<close>






section \<open>Properties of the fragmented-price assembler\<close>

text \<open>
  C3 as stated fails: for the container of the four spans \<open>US $\<close>, \<open>134\<close>, \<open>.\<close>,
  \<open>98\<close> the assembler returns \<open>US $ 134.98\<close>, with a space after the currency fragment,
  and not \<open>US $134.98\<close>.
\<close>

theorem extractFragmentedPrice_counterexample:
  "extractFragmentedPrice fragmentContainer [] = Some (js ''US $ 134.98'') \<and>
   extractFragmentedPrice fragmentContainer [] \<noteq> Some (js ''US $134.98'')"
  by (simp add: fragmentContainer_def frag_defs doc_defs re_defs str_defs Let_def)

text \<open>
  C3, amended: given a container whose child spans hold the fragments \<open>US $\<close>, \<open>134\<close>,
  \<open>.\<close>, \<open>98\<close>, the assembler returns exactly \<open>US $ 134.98\<close>: one space after the
  currency fragment, none between digits and none around the decimal point.
\<close>

theorem extractFragmentedPrice_fragments:
  assumes "nodeAt doc p = Some el"
    and "map (\<lambda>n. trim (textContent n)) (childSpans el) = [js ''US $'', js ''134'', js ''.'', js ''98'']"
  shows "extractFragmentedPrice doc p = Some (js ''US $ 134.98'')"
proof -
  have len: "length (childSpans el) = 4"
    using arg_cong [OF assms(2), of length] by simp
  have "fragmentedFromSpans el = Some (js ''US $ 134.98'')"
    unfolding fragmentedFromSpans_def Let_def assms(2) len
    by (simp add: collectFragments_def validFragmentPattern_def digitsOnlyRe_def
        currencyFragmentRe_def cleanupReconstructed_def normalizePriceText_def pricePrefixRe_def
        priceSuffixRe_def re_defs str_defs)
  with assms(1) show ?thesis
    by (simp add: extractFragmentedPrice_def)
qed

theorem extractFragmentedPrice_fragments_witness:
  "nodeAt fragmentContainer [] = Some fragmentContainer \<and>
   map (\<lambda>n. trim (textContent n)) (childSpans fragmentContainer)
     = [js ''US $'', js ''134'', js ''.'', js ''98''] \<and>
   extractFragmentedPrice fragmentContainer [] = Some (js ''US $ 134.98'')"
proof -
  have a: "nodeAt fragmentContainer [] = Some fragmentContainer"
    by simp
  have b: "map (\<lambda>n. trim (textContent n)) (childSpans fragmentContainer)
             = [js ''US $'', js ''134'', js ''.'', js ''98'']"
    by (simp add: fragmentContainer_def childSpans_def isPriceTag_def doc_defs str_defs isSpaceC_def)
  from a b extractFragmentedPrice_fragments [OF a b] show ?thesis
    by simp
qed

section \<open>Properties of amount extraction\<close>


section \<open>Properties of the scan\<close>

text \<open>
  C2 as stated fails: the element \<open><span class="price">$49</span>\<close> is no fragmented
  price and scores 53, below the threshold of 60, and the selector pass skips it; the pass over
  the text nodes, which scores nothing, then converts it: one conversion, the element in the
  processed set and marked, the amount 181.30 stored for the tooltip.
\<close>

theorem confidence_gate_counterexample:
  "scorePriceElement envILS pricePage [0]
      (candidateText pricePage [0] (normalizePriceText (textAt pricePage [0]))) = 53
   \<and> \<not> snd (fragmentStage pricePage [0] (normalizePriceText (textAt pricePage [0])))
   \<and> selectorPass envILS (newScan pricePage) [[0]] = (newScan pricePage)\<lparr>skipped := 1\<rparr>
   \<and> converted (convertPrices envILS (newScan pricePage) [[0]]) = 1
   \<and> processedElements (convertPrices envILS (newScan pricePage) [[0]]) = {[0]}
   \<and> dataAttr (document (convertPrices envILS (newScan pricePage) [[0]])) [0] ''data-converted''
       = Some (js ''true'')
   \<and> dataAttr (document (convertPrices envILS (newScan pricePage) [[0]])) [0] ''data-target-amount''
       = Some (js ''181.30'')"
proof -
  let ?s1 = "(newScan pricePage)\<lparr>skipped := 1\<rparr>"
  let ?doc = "applyConversion envILS pricePage [0] (Fin 49) (js ''USD'') (Fin (1813 / 10)) (js ''ILS'')"
  have sel: "selectorPass envILS (newScan pricePage) [[0]] = ?s1"
    by (simp add: price_selectorStep countSkipped_def)
  have "textNodeStep envILS ?s1 [0, 0] =
    (case detectCurrency (pageCurrency envILS) (document ?s1) (Some [0]) (trim (textAt (document ?s1) [0, 0])) of
       None \<Rightarrow> (?s1, False)
     | Some sourceCurrency \<Rightarrow>
         if sourceCurrency = defaultTargetCurrency (userSettings envILS) then countSkipped ?s1
         else convertAmount envILS ?s1 [0] (trim (textAt (document ?s1) [0, 0])) sourceCurrency)"
    by (rule textNodeStep_reached [where d = "\<lparr>tagName = js ''SPAN'', attrs = [(js ''class'', js ''price'')],
          istyle = [], computed = plainStyle, bounding = smallRect\<rparr>"])
       (simp_all add: parentElement_def newScan_def price_element getAttribute_def js_def)
  also have "\<dots> = (\<lparr>document = ?doc, processedElements = {[0]}, converted = 1, skipped = 1\<rparr>, True)"
    using price_convertAmount by (simp add: newScan_def price_text price_currency price_trim envILS_def settingsILS_def) (simp add: js_def)
  finally have stp: "textNodeStep envILS ?s1 [0, 0]
      = (\<lparr>document = ?doc, processedElements = {[0]}, converted = 1, skipped = 1\<rparr>, True)" .
  have "textNodePass envILS ?s1 = textNodeLoop envILS ?s1 [[0, 0]]"
    using price_accepted by (simp add: textNodePass_def newScan_def price_textPaths)
  also have "\<dots> = \<lparr>document = ?doc, processedElements = {[0]}, converted = 1, skipped = 1\<rparr>"
    using stp by simp
  finally have run: "convertPrices envILS (newScan pricePage) [[0]]
      = \<lparr>document = ?doc, processedElements = {[0]}, converted = 1, skipped = 1\<rparr>"
    using sel by (simp add: convertPrices_def)
  have m1: "dataAttr ?doc [0] ''data-converted'' = Some (js ''true'')"
    by (rule applyConversion_marks [OF price_element])
  have "toFixed (Fin (1813 / 10)) 2 = js ''181.30''"
    by (simp add: toFixed_def natDigits.simps js_def Let_def)
  then have m2: "dataAttr ?doc [0] ''data-target-amount'' = Some (js ''181.30'')"
    using applyConversion_target_amount [OF price_element] by simp
  from sel run m1 m2 show ?thesis
    by (simp add: price_text price_normalized price_fragmentStage price_candidate price_score)
qed

text \<open>
  C2, amended: in the selector pass, a candidate that reaches the scoring (not yet processed or
  marked, with a text of at most 150 characters that normalisation does not empty) and whose
  total score is below 60 is counted as skipped and left as it is, unless it was detected as a
  fragmented price; a fragmented candidate, like one that scores 60 or more, goes on to the
  stages after the gate whatever its score.
\<close>

theorem selectorStep_confidence_gate:
  assumes "p \<notin> processedElements s"
    and "elementAt (document s) p = Some d"
    and "getAttribute d ''data-converted'' \<noteq> Some (js ''true'')"
    and "textAt (document s) p \<noteq> []"
    and "length (textAt (document s) p) \<le> 150"
    and "text = normalizePriceText (textAt (document s) p)"
    and "text \<noteq> []"
    and "text2 = candidateText (document s) p text"
  shows "(\<not> snd (fragmentStage (document s) p text)
            \<and> scorePriceElement env (document s) p text2 < 60
          \<longrightarrow> selectorStep env s p = (s\<lparr>skipped := skipped s + 1\<rparr>, False))
       \<and> (snd (fragmentStage (document s) p text)
            \<or> 60 \<le> scorePriceElement env (document s) p text2
          \<longrightarrow> selectorStep env s p = afterGate env s p text2)"
proof -
  have "selectorStep env s p = singlePrice env s p (textAt (document s) p)"
    using assms(1-5) by (rule selectorStep_reached)
  with assms(6-8) show ?thesis
    by (auto simp: singlePrice_def Let_def countSkipped_def)
qed

theorem selectorStep_confidence_gate_witness:
  "selectorStep envILS (newScan pricePage) [0] = ((newScan pricePage)\<lparr>skipped := 1\<rparr>, False)
   \<and> selectorStep envILS (newScan fragmentPage) [0]
       = afterGate envILS (newScan fragmentPage) [0] (candidateText fragmentPage [0] (js ''US $134.98''))"
proof -
  have p1: "[0] \<notin> processedElements (newScan pricePage)"
    and p2: "elementAt (document (newScan pricePage)) [0]
          = Some \<lparr>tagName = js ''SPAN'', attrs = [(js ''class'', js ''price'')], istyle = [],
              computed = plainStyle, bounding = smallRect\<rparr>"
    and p3: "getAttribute \<lparr>tagName = js ''SPAN'', attrs = [(js ''class'', js ''price'')], istyle = [],
              computed = plainStyle, bounding = smallRect\<rparr> ''data-converted'' \<noteq> Some (js ''true'')"
    and p4: "textAt (document (newScan pricePage)) [0] \<noteq> []"
    and p5: "length (textAt (document (newScan pricePage)) [0]) \<le> 150"
    and p6: "js ''$49'' = normalizePriceText (textAt (document (newScan pricePage)) [0])"
    and p7: "js ''$49'' \<noteq> []"
    and p8: "js ''$49'' = candidateText (document (newScan pricePage)) [0] (js ''$49'')"
    by (simp_all add: price_element price_text price_normalized price_candidate getAttribute_def) (simp_all add: js_def)
  have low: "\<not> snd (fragmentStage (document (newScan pricePage)) [0] (js ''$49''))
      \<and> scorePriceElement envILS (document (newScan pricePage)) [0] (js ''$49'') < 60"
    by (simp add: price_fragmentStage price_score)
  from selectorStep_confidence_gate [OF p1 p2 p3 p4 p5 p6 p7 p8, of envILS] low
  have a: "selectorStep envILS (newScan pricePage) [0] = ((newScan pricePage)\<lparr>skipped := 1\<rparr>, False)"
    by simp
  have q1: "[0] \<notin> processedElements (newScan fragmentPage)"
    and q2: "elementAt (document (newScan fragmentPage)) [0]
          = Some \<lparr>tagName = js ''DIV'', attrs = [], istyle = [],
              computed = plainStyle, bounding = smallRect\<rparr>"
    and q3: "getAttribute \<lparr>tagName = js ''DIV'', attrs = [], istyle = [],
              computed = plainStyle, bounding = smallRect\<rparr> ''data-converted'' \<noteq> Some (js ''true'')"
    and q4: "textAt (document (newScan fragmentPage)) [0] \<noteq> []"
    and q5: "length (textAt (document (newScan fragmentPage)) [0]) \<le> 150"
    and q6: "js ''US $134.98'' = normalizePriceText (textAt (document (newScan fragmentPage)) [0])"
    and q7: "js ''US $134.98'' \<noteq> []"
    by (simp_all add: fragment_element fragment_text fragment_normalized getAttribute_def)
       (simp_all add: js_def)
  have q8: "candidateText fragmentPage [0] (js ''US $134.98'')
      = candidateText (document (newScan fragmentPage)) [0] (js ''US $134.98'')"
    by simp
  have frag: "snd (fragmentStage (document (newScan fragmentPage)) [0] (js ''US $134.98''))"
    by (simp add: fragment_flag)
  from selectorStep_confidence_gate [OF q1 q2 q3 q4 q5 q6 q7 q8, of envILS] frag
  have b: "selectorStep envILS (newScan fragmentPage) [0]
       = afterGate envILS (newScan fragmentPage) [0] (candidateText fragmentPage [0] (js ''US $134.98''))"
    by simp
  from a b show ?thesis by simp
qed



end
